theory Spec2Isabelle
  imports Complex_Main
begin

section \<open>Simplifying Conditional Expressions: the notebook's code cells\<close>

text \<open>
  The notebook \<^verbatim>\<open>4_simplifying_conditional_expressions.ipynb\<close> has five code cells. Each
  one sets a "bad" version of a few lines beside a "good" one. The definitions below follow
  the cells in order and keep their names, their branch order and their constants.
  Python's unbounded integers are \<^typ>\<open>int\<close>, its strings are \<^typ>\<open>string\<close>, and a
  function that can return \<^verbatim>\<open>None\<close> returns an \<^typ>\<open>int option\<close>.
\<close>

subsection \<open>Cell 1: Decompose Conditional\<close>

text \<open>
  \<^verbatim>\<open>date = datetime.strptime('2024-12-15', '%Y-%m-%d')\<close> yields a \<^verbatim>\<open>datetime\<close> object. The
  cell reads only its \<^verbatim>\<open>month\<close> and \<^verbatim>\<open>year\<close> attributes; the time of day that
  \<^verbatim>\<open>strptime\<close> fills with zeros is never read and is left out of the record.
\<close>

record datetime =
  year :: int
  month :: int
  day :: int

text \<open>The value the library call returns for the string and the format of the cell.\<close>

definition date :: datetime where
  "date = \<lparr>year = 2024, month = 12, day = 15\<rparr>"

text \<open>
  \<^verbatim>\<open>def check_if_date_valid(date):
    return (date.month == 12) and (date.year >= 2023)\<close>
\<close>

definition check_if_date_valid :: "datetime \<Rightarrow> bool" where
  "check_if_date_valid d = ((month d = 12) \<and> (year d \<ge> 2023))"

text \<open>
  The two flows are top-level statements of the cell. Each is modelled by the list of lines
  it prints, as a function of the date it tests.
  \<^verbatim>\<open>## Bad flow
if (date.month == 12) and (date.year >= 2023):
    print('date is valid')\<close>
\<close>

definition decompose_bad_flow :: "datetime \<Rightarrow> string list" where
  "decompose_bad_flow d =
     (if (month d = 12) \<and> (year d \<ge> 2023) then [''date is valid''] else [])"

text \<open>
  \<^verbatim>\<open>## Good flow
if check_if_date_valid(date):
    print('date is valid')\<close>
\<close>

definition decompose_good_flow :: "datetime \<Rightarrow> string list" where
  "decompose_good_flow d =
     (if check_if_date_valid d then [''date is valid''] else [])"

subsection \<open>Cell 2: Consolidate Conditional Expression\<close>

text \<open>\<^verbatim>\<open>person = namedtuple('person', ['age', 'income', 'gender'])\<close>\<close>

record person =
  age :: int
  income :: int
  gender :: string

text \<open>
  \<^verbatim>\<open>def bad__get_loan_limit(person):
    if person.age >= 70:
        return 0
    elif person.income <= 1000:
        return 0
    elif person.gender == 'm':
        return 0
    return 100\<close>
\<close>

definition bad__get_loan_limit :: "person \<Rightarrow> int" where
  "bad__get_loan_limit p =
     (if age p \<ge> 70 then 0
      else if income p \<le> 1000 then 0
      else if gender p = ''m'' then 0
      else 100)"

text \<open>
  \<^verbatim>\<open>def is_eligible_for_loan(person):
    if person.age >= 70:
        return False
    elif person.income <= 1000:
        return False
    elif person.gender == 'm':
        return False
    return True\<close>
\<close>

definition is_eligible_for_loan :: "person \<Rightarrow> bool" where
  "is_eligible_for_loan p =
     (if age p \<ge> 70 then False
      else if income p \<le> 1000 then False
      else if gender p = ''m'' then False
      else True)"

text \<open>
  \<^verbatim>\<open>def good__get_loan_limit(person):
    if is_eligible_for_loan(person):
        return 100
    return 0\<close>
\<close>

definition good__get_loan_limit :: "person \<Rightarrow> int" where
  "good__get_loan_limit p = (if is_eligible_for_loan p then 100 else 0)"

subsection \<open>Python floats\<close>

text \<open>
  Cell 3 multiplies the integer \<^verbatim>\<open>10\<close> by the float literals \<^verbatim>\<open>0.8\<close> and \<^verbatim>\<open>1.0\<close>.
  A Python float is an IEEE 754 binary64 number. A finite one is modelled by the real number
  it denotes, and every operation rounds its exact result to the nearest number with a
  53-bit significand, ties going to the even significand. The exponent range is not
  modelled: the rounding below is that of binary64 for results whose magnitude lies in
  \<open>[2\<^sup>-\<^sup>1\<^sup>0\<^sup>2\<^sup>2, 2\<^sup>1\<^sup>0\<^sup>2\<^sup>4)\<close>, which holds for every number of the cell
  (\<open>operands_of_cell_in_range\<close> and \<open>prices_of_cell_in_range\<close> below).
\<close>

type_synonym pyfloat = real

text \<open>The number of binary digits of a natural number (\<^verbatim>\<open>int.bit_length\<close>).\<close>

fun bit_length :: "nat \<Rightarrow> nat" where
  "bit_length n = (if n = 0 then 0 else Suc (bit_length (n div 2)))"

declare bit_length.simps [simp del]

definition pow2 :: "int \<Rightarrow> real" where
  "pow2 e = (if e \<ge> 0 then 2 ^ nat e else 1 / 2 ^ nat (- e))"

text \<open>For \<open>q > 0\<close>, the exponent \<open>k\<close> with \<open>2\<^sup>k \<le> q < 2\<^sup>k\<^sup>+\<^sup>1\<close>.\<close>

definition ilog2 :: "real \<Rightarrow> int" where
  "ilog2 q =
     (if q \<ge> 1 then int (bit_length (nat \<lfloor>q\<rfloor>)) - 1
      else - int (bit_length (nat (\<lceil>1 / q\<rceil> - 1))))"

definition round_half_even :: "real \<Rightarrow> int" where
  "round_half_even r =
     (let f = \<lfloor>r\<rfloor>; d = r - of_int f in
      if d < 1 / 2 then f
      else if d > 1 / 2 then f + 1
      else if even f then f else f + 1)"

definition round_double :: "real \<Rightarrow> pyfloat" where
  "round_double q =
     (if q = 0 then 0
      else let e = ilog2 \<bar>q\<bar> - 52;
               m = round_half_even (\<bar>q\<bar> / pow2 e)
           in sgn q * of_int m * pow2 e)"

text \<open>
  A decimal literal denotes the float nearest to its exact value; an integer operand of a
  float operation is first converted to the nearest float; the product of two floats is the
  exact product, rounded.
\<close>

definition float_literal :: "real \<Rightarrow> pyfloat" where
  "float_literal q = round_double q"

definition float_of_int :: "int \<Rightarrow> pyfloat" where
  "float_of_int i = round_double (of_int i)"

definition float_mul :: "pyfloat \<Rightarrow> pyfloat \<Rightarrow> pyfloat" where
  "float_mul a b = round_double (a * b)"

definition in_double_range :: "real \<Rightarrow> bool" where
  "in_double_range x = (pow2 (- 1022) \<le> \<bar>x\<bar> \<and> \<bar>x\<bar> < pow2 1024)"

subsection \<open>Cell 3: Consolidate Duplicate Conditional Fragments\<close>

text \<open>
  \<^verbatim>\<open>def is_discounted():
    val = random.randint(1,10)
    if val > 5:
        return True
    return False\<close>

  The function draws a random integer. The model takes the drawn value \<open>val\<close> as its
  argument, so that a call is a function of the draw.
\<close>

definition is_discounted :: "int \<Rightarrow> bool" where
  "is_discounted val = (if val > 5 then True else False)"

text \<open>
  \<^verbatim>\<open>def get_price(base, mult):
    return base * mult\<close>

  The cell calls it with the integer \<^verbatim>\<open>10\<close> and a float: Python converts the integer and
  multiplies the two floats. This definition is the multiplication inside the range of
  binary64, where the cell's numbers lie; what \<^verbatim>\<open>base * mult\<close> does on any two values
  (\<^verbatim>\<open>OverflowError\<close> for an integer too large, an infinity for a product too large) is
  \<open>py_mul\<close> in the last section of definitions.
\<close>

definition get_price :: "int \<Rightarrow> pyfloat \<Rightarrow> pyfloat" where
  "get_price base m = float_mul (float_of_int base) m"

text \<open>The two variables the flows of the cell assign.\<close>

record pricing =
  mult :: pyfloat
  price :: pyfloat

text \<open>
  \<^verbatim>\<open>## Bad flow, repeated definition of mult. Move out of conditional block
if is_discounted():
    mult = 0.8
    price = get_price(10, mult)
else:
    mult = 1.0
    price = get_price(10, mult)\<close>

  Each flow is a function of the value its one call of \<^verbatim>\<open>is_discounted\<close> draws.
\<close>

definition consolidate_bad_flow :: "int \<Rightarrow> pricing" where
  "consolidate_bad_flow val =
     (if is_discounted val then
        (let m = float_literal 0.8; pr = get_price 10 m in \<lparr>mult = m, price = pr\<rparr>)
      else
        (let m = float_literal 1.0; pr = get_price 10 m in \<lparr>mult = m, price = pr\<rparr>))"

text \<open>
  \<^verbatim>\<open>## Good flow
mult=1.0
if is_discounted():
    mult = 0.8
price = get_price(10, mult)\<close>
\<close>

definition consolidate_good_flow :: "int \<Rightarrow> pricing" where
  "consolidate_good_flow val =
     (let m = float_literal 1.0;
          m = (if is_discounted val then float_literal 0.8 else m);
          pr = get_price 10 m
      in \<lparr>mult = m, price = pr\<rparr>)"

subsection \<open>Cell 4: Replace Nested Conditional with Guard Clauses\<close>

text \<open>
  The two functions of this cell call four methods of their argument. No class of the
  notebook defines them, so the argument is modelled by what the four calls return.
\<close>

record person_obj =
  is_dead :: bool
  is_divorced :: bool
  is_retired :: bool
  is_not_working :: bool

text \<open>
  \<^verbatim>\<open>def bad__loan_repayment_due(person):
    if person.is_dead():
        return 0
    else:
        if person.is_divorced():
            return 100
        elif person.is_retired():
            return 100
        elif person.is_not_working():
            return 200\<close>

  A Python function whose body ends without \<^verbatim>\<open>return\<close> returns \<^verbatim>\<open>None\<close>.
\<close>

definition bad__loan_repayment_due :: "person_obj \<Rightarrow> int option" where
  "bad__loan_repayment_due p =
     (if is_dead p then Some 0
      else
        (if is_divorced p then Some 100
         else if is_retired p then Some 100
         else if is_not_working p then Some 200
         else None))"

text \<open>
  \<^verbatim>\<open>def good__loan_repayment_due(person):
    ## No unnecessary nesting
    if person.is_dead():
        return 0
    if person.is_divorced():
        return 100
    if person.is_retired():
        return 100
    if person.is_not_working():
        return 200\<close>
\<close>

definition good__loan_repayment_due :: "person_obj \<Rightarrow> int option" where
  "good__loan_repayment_due p =
     (if is_dead p then Some 0
      else if is_divorced p then Some 100
      else if is_retired p then Some 100
      else if is_not_working p then Some 200
      else None)"

subsection \<open>Cell 5: Introduce Null Object\<close>

text \<open>
  \<^verbatim>\<open>class Customer():
    def __init__(self):
        self.bill = 123

class NullCustomer(Customer):
    def __init__(self):
        self.bill = 0\<close>

  An object of either class carries its class and its one attribute \<^verbatim>\<open>bill\<close>. The
  constants \<open>Customer\<close> and \<open>NullCustomer\<close> are the objects the constructor calls
  \<^verbatim>\<open>Customer()\<close> and \<^verbatim>\<open>NullCustomer()\<close> build.
\<close>

datatype customer_class = CustomerClass | NullCustomerClass

record customer =
  cls :: customer_class
  bill :: int

definition Customer :: customer where
  "Customer = \<lparr>cls = CustomerClass, bill = 123\<rparr>"

definition NullCustomer :: customer where
  "NullCustomer = \<lparr>cls = NullCustomerClass, bill = 0\<rparr>"

text \<open>
  The argument of the two functions is an object or \<^verbatim>\<open>None\<close>: a \<^typ>\<open>customer option\<close>.
  Reading an attribute of \<^verbatim>\<open>None\<close> raises \<^verbatim>\<open>AttributeError\<close>, the one error of this cell;
  the other errors are those the operations of the last section raise.
\<close>

datatype py_error =
    AttributeError | TypeError | OverflowError | NameError | ValueError | MemoryError
  | AssertionError

text \<open>
  \<^verbatim>\<open>def bad__get_bill(customer):
    if customer is None:
        return 0
    return customer.bill\<close>
\<close>

definition bad__get_bill :: "customer option \<Rightarrow> py_error + int" where
  "bad__get_bill c =
     (case c of
        None \<Rightarrow> Inr 0
      | Some obj \<Rightarrow> Inr (bill obj))"

text \<open>
  \<^verbatim>\<open>def good__get_bill(customer):
    return customer.bill\<close>
\<close>

definition good__get_bill :: "customer option \<Rightarrow> py_error + int" where
  "good__get_bill c =
     (case c of
        None \<Rightarrow> Inl AttributeError
      | Some obj \<Rightarrow> Inr (bill obj))"

text \<open>
  The cell ends with
  \<^verbatim>\<open>customer1 = Customer()
customer2 = Customer()
customer3 = NullCustomer()

bad__get_bill(customer2)
good__get_bill(customer1)\<close>
  and the notebook records \<^verbatim>\<open>123\<close> as the value of the last expression.
\<close>

definition customer1 :: customer where
  "customer1 = Customer"

definition customer2 :: customer where
  "customer2 = Customer"

definition customer3 :: customer where
  "customer3 = NullCustomer"

section \<open>The functions as Python statements\<close>

text \<open>
  The definitions above give each function by the value it computes on an argument of the
  type its example uses. Whether a function returns at all, and whether it raises, are
  properties of its statements and of the operations of Python it runs, on any argument. For
  them the ten functions are embedded a second time, statement by statement, and run by an
  interpreter of the fragment of Python they are written in. That fragment has \<^verbatim>\<open>while\<close>
  and calls, so a function of the fragment need not return; \<^verbatim>\<open>assert\<close> and
  \<^verbatim>\<open>try\<close>/\<^verbatim>\<open>except\<close> are in it so that their absence from a body can be stated.
\<close>

subsection \<open>Values\<close>

text \<open>
  The values are those of the kinds the notebook uses: \<^verbatim>\<open>None\<close>, booleans, unbounded
  integers, floats, strings, and objects of plain classes. An object is the list of its
  attributes. An attribute is a data value or a method without arguments; a method is
  modelled by the outcome of calling it (the value it returns or the error it raises), so a
  method of an argument is assumed to return. Classes that define special methods
  (\<^verbatim>\<open>__eq__\<close>, \<^verbatim>\<open>__ge__\<close>, \<^verbatim>\<open>__mul__\<close>, \<^verbatim>\<open>__bool__\<close>, \<^verbatim>\<open>__getattr__\<close>) are outside the model.

  A float is a finite binary64 number (the real it denotes), an infinity or a NaN; the sign
  of a zero is not kept.
\<close>

datatype fl = Finite real | PosInf | NegInf | NaN

datatype pyval =
    PyNone
  | PyBool bool
  | PyInt int
  | PyFloat fl
  | PyStr string
  | PyObj "(string \<times> pyval) list"
  | PyMethod "py_error + pyval"

text \<open>
The truth value an \<^verbatim>\<open>if\<close> or an \<^verbatim>\<open>and\<close> takes of a value.
\<close>

definition truthy :: "pyval \<Rightarrow> bool" where
  "truthy v =
     (case v of
        PyNone \<Rightarrow> False
      | PyBool b \<Rightarrow> b
      | PyInt i \<Rightarrow> i \<noteq> 0
      | PyFloat f \<Rightarrow> f \<noteq> Finite 0
      | PyStr s \<Rightarrow> s \<noteq> []
      | PyObj as \<Rightarrow> True
      | PyMethod r \<Rightarrow> True)"

text \<open>
  Reading an attribute and calling a value without arguments. Only an object has an
  attribute of one of the names the notebook reads (\<^verbatim>\<open>month\<close>, \<^verbatim>\<open>year\<close>, \<^verbatim>\<open>age\<close>,
  \<^verbatim>\<open>income\<close>, \<^verbatim>\<open>gender\<close>, \<^verbatim>\<open>bill\<close> and the four methods): on every other value the read
  raises \<^verbatim>\<open>AttributeError\<close>. Calling a value that is not a method raises \<^verbatim>\<open>TypeError\<close>.
\<close>

definition py_getattr :: "pyval \<Rightarrow> string \<Rightarrow> py_error + pyval" where
  "py_getattr v a =
     (case v of
        PyObj as \<Rightarrow> (case map_of as a of None \<Rightarrow> Inl AttributeError | Some w \<Rightarrow> Inr w)
      | _ \<Rightarrow> Inl AttributeError)"

definition py_call0 :: "pyval \<Rightarrow> py_error + pyval" where
  "py_call0 v = (case v of PyMethod r \<Rightarrow> r | _ \<Rightarrow> Inl TypeError)"

text \<open>
A boolean is an integer in arithmetic and in comparisons.
\<close>

definition as_int :: "pyval \<Rightarrow> int option" where
  "as_int v =
     (case v of
        PyBool b \<Rightarrow> Some (if b then 1 else 0)
      | PyInt i \<Rightarrow> Some i
      | _ \<Rightarrow> None)"

text \<open>
  Every comparison of the notebook has a literal as its right operand. \<^verbatim>\<open>==\<close> with a
  literal never raises: values of unrelated kinds are unequal, and numbers are compared by
  their exact values.
\<close>

datatype lit = LBool bool | LInt int | LStr string

definition lit_val :: "lit \<Rightarrow> pyval" where
  "lit_val l = (case l of LBool b \<Rightarrow> PyBool b | LInt i \<Rightarrow> PyInt i | LStr s \<Rightarrow> PyStr s)"

definition num_eq :: "pyval \<Rightarrow> int \<Rightarrow> bool" where
  "num_eq v k =
     (case as_int v of
        Some i \<Rightarrow> i = k
      | None \<Rightarrow> (case v of PyFloat (Finite x) \<Rightarrow> x = of_int k | _ \<Rightarrow> False))"

definition py_eq_lit :: "pyval \<Rightarrow> lit \<Rightarrow> bool" where
  "py_eq_lit v l =
     (case l of
        LBool b \<Rightarrow> num_eq v (if b then 1 else 0)
      | LInt k \<Rightarrow> num_eq v k
      | LStr s \<Rightarrow> (case v of PyStr t \<Rightarrow> t = s | _ \<Rightarrow> False))"

text \<open>
  \<^verbatim>\<open>>=\<close>, \<^verbatim>\<open><=\<close> and \<^verbatim>\<open>>\<close> with an integer literal compare numbers exactly (a NaN is in no
  order with any number) and raise \<^verbatim>\<open>TypeError\<close> on every other value.
\<close>

datatype ordop = Ge | Le | Gt

definition ord_holds :: "ordop \<Rightarrow> ('a::linorder) \<Rightarrow> 'a \<Rightarrow> bool" where
  "ord_holds op x y = (case op of Ge \<Rightarrow> x \<ge> y | Le \<Rightarrow> x \<le> y | Gt \<Rightarrow> x > y)"

definition py_ord_int :: "ordop \<Rightarrow> pyval \<Rightarrow> int \<Rightarrow> py_error + bool" where
  "py_ord_int op v k =
     (case as_int v of
        Some i \<Rightarrow> Inr (ord_holds op i k)
      | None \<Rightarrow>
          (case v of
             PyFloat f \<Rightarrow>
               Inr (case f of
                      Finite x \<Rightarrow> ord_holds op x (of_int k)
                    | PosInf \<Rightarrow> op \<noteq> Le
                    | NegInf \<Rightarrow> op = Le
                    | NaN \<Rightarrow> False)
           | _ \<Rightarrow> Inl TypeError))"

text \<open>
  Float arithmetic over the whole range of binary64. \<open>round_binary64\<close> is \<open>round_double\<close>
  with the exponent of the last place held at \<open>-1074\<close> from below, which is the rounding of
  the subnormal numbers. A rounded product of magnitude \<open>2\<^sup>1\<^sup>0\<^sup>2\<^sup>4\<close> or more is an infinity;
  an integer that rounds so far cannot be converted, and Python raises \<^verbatim>\<open>OverflowError\<close>.
\<close>

definition round_binary64 :: "real \<Rightarrow> real" where
  "round_binary64 q =
     (if q = 0 then 0
      else let e = max (ilog2 \<bar>q\<bar> - 52) (- 1074);
               m = round_half_even (\<bar>q\<bar> / pow2 e)
           in sgn q * of_int m * pow2 e)"

definition fl_round :: "real \<Rightarrow> fl" where
  "fl_round q =
     (let r = round_binary64 q in
      if \<bar>r\<bar> \<ge> pow2 1024 then (if q > 0 then PosInf else NegInf) else Finite r)"

definition int_to_float :: "int \<Rightarrow> py_error + fl" where
  "int_to_float i =
     (let r = round_binary64 (of_int i) in
      if \<bar>r\<bar> \<ge> pow2 1024 then Inl OverflowError else Inr (Finite r))"

definition fl_sign :: "fl \<Rightarrow> int" where
  "fl_sign f =
     (case f of
        Finite x \<Rightarrow> (if x > 0 then 1 else if x < 0 then - 1 else 0)
      | PosInf \<Rightarrow> 1
      | NegInf \<Rightarrow> - 1
      | NaN \<Rightarrow> 0)"

definition fl_mul :: "fl \<Rightarrow> fl \<Rightarrow> fl" where
  "fl_mul a b =
     (case (a, b) of
        (Finite x, Finite y) \<Rightarrow> fl_round (x * y)
      | _ \<Rightarrow>
          if a = NaN \<or> b = NaN \<or> fl_sign a * fl_sign b = 0 then NaN
          else if fl_sign a * fl_sign b > 0 then PosInf else NegInf)"

text \<open>
  \<^verbatim>\<open>*\<close> on two values. Integers multiply exactly; an integer beside a float is converted
  first; a string beside an integer is repeated, with the checks CPython makes on the count
  and on the length of the result (\<^verbatim>\<open>OverflowError\<close>) and a bound \<open>mem\<close> on the length
  that can be allocated (\<^verbatim>\<open>MemoryError\<close>); every other pair raises \<^verbatim>\<open>TypeError\<close>.
\<close>

definition ssize_max :: int where
  "ssize_max = 2 ^ 63 - 1"

definition py_repeat :: "nat \<Rightarrow> string \<Rightarrow> int \<Rightarrow> py_error + pyval" where
  "py_repeat mem s n =
     (if n > ssize_max \<or> n < - ssize_max - 1 then Inl OverflowError
      else if n \<le> 0 then Inr (PyStr [])
      else if n = 1 then Inr (PyStr s)
      else if int (length s) * n > ssize_max then Inl OverflowError
      else if length s * nat n > mem then Inl MemoryError
      else Inr (PyStr (concat (replicate (nat n) s))))"

definition py_mul :: "nat \<Rightarrow> pyval \<Rightarrow> pyval \<Rightarrow> py_error + pyval" where
  "py_mul mem v w =
     (case (as_int v, as_int w) of
        (Some i, Some j) \<Rightarrow> Inr (PyInt (i * j))
      | (Some i, None) \<Rightarrow>
          (case w of
             PyFloat g \<Rightarrow>
               (case int_to_float i of Inl err \<Rightarrow> Inl err | Inr f \<Rightarrow> Inr (PyFloat (fl_mul f g)))
           | PyStr s \<Rightarrow> py_repeat mem s i
           | _ \<Rightarrow> Inl TypeError)
      | (None, Some j) \<Rightarrow>
          (case v of
             PyFloat f \<Rightarrow>
               (case int_to_float j of Inl err \<Rightarrow> Inl err | Inr g \<Rightarrow> Inr (PyFloat (fl_mul f g)))
           | PyStr s \<Rightarrow> py_repeat mem s j
           | _ \<Rightarrow> Inl TypeError)
      | (None, None) \<Rightarrow>
          (case (v, w) of
             (PyFloat f, PyFloat g) \<Rightarrow> Inr (PyFloat (fl_mul f g))
           | _ \<Rightarrow> Inl TypeError))"

subsection \<open>Expressions, statements and their execution\<close>

text \<open>
  \<open>ERandInt a b\<close> is \<^verbatim>\<open>random.randint(a, b)\<close>, \<open>ECallMethod e a\<close> is \<^verbatim>\<open>e.a()\<close>, \<open>ECall f es\<close>
  a call of a function of the notebook, \<open>EEq\<close> and \<open>EOrd\<close> the comparisons with a literal.
  An \<^verbatim>\<open>elif\<close> is an \<^verbatim>\<open>if\<close> in the \<^verbatim>\<open>else\<close> branch, and a missing \<^verbatim>\<open>else\<close> is \<open>SPass\<close>.
  \<open>STry s h\<close> is \<^verbatim>\<open>try: s except: h\<close>.

  A configuration holds the functions defined, the stream of numbers the random generator
  will draw, and the memory bound.
\<close>

datatype expr =
    ELit lit
  | EVar string
  | EAttr expr string
  | ECallMethod expr string
  | ECall string "expr list"
  | ERandInt int int
  | EEq expr lit
  | EOrd ordop expr int
  | EAnd expr expr
  | EIsNone expr
  | EMul expr expr

datatype stmt =
    SReturn expr
  | SIf expr stmt stmt
  | SSeq stmt stmt
  | SAssign string expr
  | SPass
  | SWhile expr stmt
  | SAssert expr
  | STry stmt stmt

record fundef =
  params :: "string list"
  body :: stmt

record config =
  funs :: "(string \<times> fundef) list"
  draw :: "nat \<Rightarrow> int"
  mem_limit :: nat

type_synonym env = "(string \<times> pyval) list"

datatype flow = Next env | Returned pyval | Raised py_error env

text \<open>
  Evaluating an expression yields a value or an error, and the number of random draws made
  so far. It is recursive in the expression only; the call of a function is left to the
  parameter \<open>cf\<close>, which returns \<open>None\<close> when the call does not return.
\<close>

type_synonym 'a outcome = "((py_error + 'a) \<times> nat) option"

type_synonym caller = "string \<Rightarrow> pyval list \<Rightarrow> nat \<Rightarrow> pyval outcome"

fun eval_expr :: "caller \<Rightarrow> config \<Rightarrow> expr \<Rightarrow> env \<Rightarrow> nat \<Rightarrow> pyval outcome"
  and eval_args :: "caller \<Rightarrow> config \<Rightarrow> expr list \<Rightarrow> env \<Rightarrow> nat \<Rightarrow> (pyval list) outcome"
where
  "eval_expr cf c (ELit l) env k = Some (Inr (lit_val l), k)"
| "eval_expr cf c (EVar x) env k =
     Some (case map_of env x of None \<Rightarrow> Inl NameError | Some v \<Rightarrow> Inr v, k)"
| "eval_expr cf c (EAttr e a) env k =
     (case eval_expr cf c e env k of
        None \<Rightarrow> None
      | Some (Inl err, k') \<Rightarrow> Some (Inl err, k')
      | Some (Inr v, k') \<Rightarrow> Some (py_getattr v a, k'))"
| "eval_expr cf c (ECallMethod e a) env k =
     (case eval_expr cf c e env k of
        None \<Rightarrow> None
      | Some (Inl err, k') \<Rightarrow> Some (Inl err, k')
      | Some (Inr v, k') \<Rightarrow>
          Some (case py_getattr v a of Inl err \<Rightarrow> Inl err | Inr m \<Rightarrow> py_call0 m, k'))"
| "eval_expr cf c (ECall f es) env k =
     (case map_of (funs c) f of
        None \<Rightarrow> Some (Inl NameError, k)
      | Some fd \<Rightarrow>
          (case eval_args cf c es env k of
             None \<Rightarrow> None
           | Some (Inl err, k') \<Rightarrow> Some (Inl err, k')
           | Some (Inr vs, k') \<Rightarrow> cf f vs k'))"
| "eval_expr cf c (ERandInt a b) env k =
     (if a > b then Some (Inl ValueError, k)
      else Some (Inr (PyInt (a + draw c k mod (b - a + 1))), Suc k))"
| "eval_expr cf c (EEq e l) env k =
     (case eval_expr cf c e env k of
        None \<Rightarrow> None
      | Some (Inl err, k') \<Rightarrow> Some (Inl err, k')
      | Some (Inr v, k') \<Rightarrow> Some (Inr (PyBool (py_eq_lit v l)), k'))"
| "eval_expr cf c (EOrd op e i) env k =
     (case eval_expr cf c e env k of
        None \<Rightarrow> None
      | Some (Inl err, k') \<Rightarrow> Some (Inl err, k')
      | Some (Inr v, k') \<Rightarrow>
          Some (case py_ord_int op v i of Inl err \<Rightarrow> Inl err | Inr b \<Rightarrow> Inr (PyBool b), k'))"
| "eval_expr cf c (EAnd e1 e2) env k =
     (case eval_expr cf c e1 env k of
        None \<Rightarrow> None
      | Some (Inl err, k') \<Rightarrow> Some (Inl err, k')
      | Some (Inr v, k') \<Rightarrow> if truthy v then eval_expr cf c e2 env k' else Some (Inr v, k'))"
| "eval_expr cf c (EIsNone e) env k =
     (case eval_expr cf c e env k of
        None \<Rightarrow> None
      | Some (Inl err, k') \<Rightarrow> Some (Inl err, k')
      | Some (Inr v, k') \<Rightarrow> Some (Inr (PyBool (v = PyNone)), k'))"
| "eval_expr cf c (EMul e1 e2) env k =
     (case eval_expr cf c e1 env k of
        None \<Rightarrow> None
      | Some (Inl err, k') \<Rightarrow> Some (Inl err, k')
      | Some (Inr v, k') \<Rightarrow>
          (case eval_expr cf c e2 env k' of
             None \<Rightarrow> None
           | Some (Inl err, k'') \<Rightarrow> Some (Inl err, k'')
           | Some (Inr w, k'') \<Rightarrow> Some (py_mul (mem_limit c) v w, k'')))"
| "eval_args cf c [] env k = Some (Inr [], k)"
| "eval_args cf c (e # es) env k =
     (case eval_expr cf c e env k of
        None \<Rightarrow> None
      | Some (Inl err, k') \<Rightarrow> Some (Inl err, k')
      | Some (Inr v, k') \<Rightarrow>
          (case eval_args cf c es env k' of
             None \<Rightarrow> None
           | Some (Inl err, k'') \<Rightarrow> Some (Inl err, k'')
           | Some (Inr vs, k'') \<Rightarrow> Some (Inr (v # vs), k'')))"

text \<open>
  A statement ends by falling through to the next one, by \<^verbatim>\<open>return\<close>, or by an error. The
  number \<open>n\<close> bounds the iterations of a loop: a loop that asks for more yields \<open>None\<close>.
\<close>

fun exec_stmt :: "caller \<Rightarrow> nat \<Rightarrow> config \<Rightarrow> stmt \<Rightarrow> env \<Rightarrow> nat \<Rightarrow> (flow \<times> nat) option"
where
  "exec_stmt cf n c (SReturn e) env k =
     (case eval_expr cf c e env k of
        None \<Rightarrow> None
      | Some (Inl err, k') \<Rightarrow> Some (Raised err env, k')
      | Some (Inr v, k') \<Rightarrow> Some (Returned v, k'))"
| "exec_stmt cf n c (SIf e s1 s2) env k =
     (case eval_expr cf c e env k of
        None \<Rightarrow> None
      | Some (Inl err, k') \<Rightarrow> Some (Raised err env, k')
      | Some (Inr v, k') \<Rightarrow>
          if truthy v then exec_stmt cf n c s1 env k' else exec_stmt cf n c s2 env k')"
| "exec_stmt cf n c (SSeq s1 s2) env k =
     (case exec_stmt cf n c s1 env k of
        None \<Rightarrow> None
      | Some (Next env', k') \<Rightarrow> exec_stmt cf n c s2 env' k'
      | Some (Returned v, k') \<Rightarrow> Some (Returned v, k')
      | Some (Raised err env', k') \<Rightarrow> Some (Raised err env', k'))"
| "exec_stmt cf n c (SAssign x e) env k =
     (case eval_expr cf c e env k of
        None \<Rightarrow> None
      | Some (Inl err, k') \<Rightarrow> Some (Raised err env, k')
      | Some (Inr v, k') \<Rightarrow> Some (Next ((x, v) # env), k'))"
| "exec_stmt cf n c SPass env k = Some (Next env, k)"
| "exec_stmt cf 0 c (SWhile e s) env k = None"
| "exec_stmt cf (Suc n) c (SWhile e s) env k =
     (case eval_expr cf c e env k of
        None \<Rightarrow> None
      | Some (Inl err, k') \<Rightarrow> Some (Raised err env, k')
      | Some (Inr v, k') \<Rightarrow>
          if truthy v then
            (case exec_stmt cf n c s env k' of
               None \<Rightarrow> None
             | Some (Next env', k'') \<Rightarrow> exec_stmt cf n c (SWhile e s) env' k''
             | Some (Returned w, k'') \<Rightarrow> Some (Returned w, k'')
             | Some (Raised err env', k'') \<Rightarrow> Some (Raised err env', k''))
          else Some (Next env, k'))"
| "exec_stmt cf n c (SAssert e) env k =
     (case eval_expr cf c e env k of
        None \<Rightarrow> None
      | Some (Inl err, k') \<Rightarrow> Some (Raised err env, k')
      | Some (Inr v, k') \<Rightarrow>
          if truthy v then Some (Next env, k') else Some (Raised AssertionError env, k'))"
| "exec_stmt cf n c (STry s h) env k =
     (case exec_stmt cf n c s env k of
        None \<Rightarrow> None
      | Some (Raised err env', k') \<Rightarrow> exec_stmt cf n c h env' k'
      | Some (Next env', k') \<Rightarrow> Some (Next env', k')
      | Some (Returned v, k') \<Rightarrow> Some (Returned v, k'))"

text \<open>
  A call binds the parameters and runs the body; a body that falls through returns
  \<^verbatim>\<open>None\<close>. The number \<open>n\<close> bounds the depth of calls as well as the iterations of each loop.
  A call returns if \<open>call_fun n\<close> is not \<open>None\<close> for some \<open>n\<close>; a call that loops or recurses
  for ever is \<open>None\<close> for every \<open>n\<close>.
\<close>

primrec call_fun :: "nat \<Rightarrow> config \<Rightarrow> string \<Rightarrow> pyval list \<Rightarrow> nat \<Rightarrow> pyval outcome" where
  "call_fun 0 c f vs k = None"
| "call_fun (Suc n) c f vs k =
     (case map_of (funs c) f of
        None \<Rightarrow> Some (Inl NameError, k)
      | Some fd \<Rightarrow>
          if length vs \<noteq> length (params fd) then Some (Inl TypeError, k)
          else
            (case exec_stmt (call_fun n c) n c (body fd) (zip (params fd) vs) k of
               None \<Rightarrow> None
             | Some (Next env', k') \<Rightarrow> Some (Inr PyNone, k')
             | Some (Returned v, k') \<Rightarrow> Some (Inr v, k')
             | Some (Raised err env', k') \<Rightarrow> Some (Inl err, k')))"

text \<open>
  The functions a statement calls, whether it has a loop, and whether it has an
  \<^verbatim>\<open>assert\<close> or a \<^verbatim>\<open>try\<close>.
\<close>

fun called_expr :: "expr \<Rightarrow> string list" and called_args :: "expr list \<Rightarrow> string list" where
  "called_expr (ELit l) = []"
| "called_expr (EVar x) = []"
| "called_expr (EAttr e a) = called_expr e"
| "called_expr (ECallMethod e a) = called_expr e"
| "called_expr (ECall f es) = f # called_args es"
| "called_expr (ERandInt a b) = []"
| "called_expr (EEq e l) = called_expr e"
| "called_expr (EOrd op e i) = called_expr e"
| "called_expr (EAnd e1 e2) = called_expr e1 @ called_expr e2"
| "called_expr (EIsNone e) = called_expr e"
| "called_expr (EMul e1 e2) = called_expr e1 @ called_expr e2"
| "called_args [] = []"
| "called_args (e # es) = called_expr e @ called_args es"

fun called_stmt :: "stmt \<Rightarrow> string list" where
  "called_stmt (SReturn e) = called_expr e"
| "called_stmt (SIf e s1 s2) = called_expr e @ called_stmt s1 @ called_stmt s2"
| "called_stmt (SSeq s1 s2) = called_stmt s1 @ called_stmt s2"
| "called_stmt (SAssign x e) = called_expr e"
| "called_stmt SPass = []"
| "called_stmt (SWhile e s) = called_expr e @ called_stmt s"
| "called_stmt (SAssert e) = called_expr e"
| "called_stmt (STry s h) = called_stmt s @ called_stmt h"

fun loop_free :: "stmt \<Rightarrow> bool" where
  "loop_free (SReturn e) = True"
| "loop_free (SIf e s1 s2) = (loop_free s1 \<and> loop_free s2)"
| "loop_free (SSeq s1 s2) = (loop_free s1 \<and> loop_free s2)"
| "loop_free (SAssign x e) = True"
| "loop_free SPass = True"
| "loop_free (SWhile e s) = False"
| "loop_free (SAssert e) = True"
| "loop_free (STry s h) = (loop_free s \<and> loop_free h)"

fun no_error_handling :: "stmt \<Rightarrow> bool" where
  "no_error_handling (SReturn e) = True"
| "no_error_handling (SIf e s1 s2) = (no_error_handling s1 \<and> no_error_handling s2)"
| "no_error_handling (SSeq s1 s2) = (no_error_handling s1 \<and> no_error_handling s2)"
| "no_error_handling (SAssign x e) = True"
| "no_error_handling SPass = True"
| "no_error_handling (SWhile e s) = no_error_handling s"
| "no_error_handling (SAssert e) = False"
| "no_error_handling (STry s h) = False"

subsection \<open>The ten functions of the notebook\<close>

text \<open>
  Each function as the cell writes it: its parameters and its body, statement by
  statement. The sources are quoted at the definitions of the same names in the first
  section.
\<close>

definition check_if_date_valid_src :: fundef where
  "check_if_date_valid_src =
     \<lparr>params = [''date''],
      body =
        SReturn (EAnd (EEq (EAttr (EVar ''date'') ''month'') (LInt 12))
                      (EOrd Ge (EAttr (EVar ''date'') ''year'') 2023))\<rparr>"

definition bad__get_loan_limit_src :: fundef where
  "bad__get_loan_limit_src =
     \<lparr>params = [''person''],
      body =
        SSeq
          (SIf (EOrd Ge (EAttr (EVar ''person'') ''age'') 70)
             (SReturn (ELit (LInt 0)))
             (SIf (EOrd Le (EAttr (EVar ''person'') ''income'') 1000)
                (SReturn (ELit (LInt 0)))
                (SIf (EEq (EAttr (EVar ''person'') ''gender'') (LStr ''m''))
                   (SReturn (ELit (LInt 0)))
                   SPass)))
          (SReturn (ELit (LInt 100)))\<rparr>"

definition is_eligible_for_loan_src :: fundef where
  "is_eligible_for_loan_src =
     \<lparr>params = [''person''],
      body =
        SSeq
          (SIf (EOrd Ge (EAttr (EVar ''person'') ''age'') 70)
             (SReturn (ELit (LBool False)))
             (SIf (EOrd Le (EAttr (EVar ''person'') ''income'') 1000)
                (SReturn (ELit (LBool False)))
                (SIf (EEq (EAttr (EVar ''person'') ''gender'') (LStr ''m''))
                   (SReturn (ELit (LBool False)))
                   SPass)))
          (SReturn (ELit (LBool True)))\<rparr>"

definition good__get_loan_limit_src :: fundef where
  "good__get_loan_limit_src =
     \<lparr>params = [''person''],
      body =
        SSeq
          (SIf (ECall ''is_eligible_for_loan'' [EVar ''person''])
             (SReturn (ELit (LInt 100)))
             SPass)
          (SReturn (ELit (LInt 0)))\<rparr>"

definition is_discounted_src :: fundef where
  "is_discounted_src =
     \<lparr>params = [],
      body =
        SSeq (SAssign ''val'' (ERandInt 1 10))
          (SSeq
             (SIf (EOrd Gt (EVar ''val'') 5) (SReturn (ELit (LBool True))) SPass)
             (SReturn (ELit (LBool False))))\<rparr>"

definition get_price_src :: fundef where
  "get_price_src =
     \<lparr>params = [''base'', ''mult''],
      body = SReturn (EMul (EVar ''base'') (EVar ''mult''))\<rparr>"

definition bad__loan_repayment_due_src :: fundef where
  "bad__loan_repayment_due_src =
     \<lparr>params = [''person''],
      body =
        SIf (ECallMethod (EVar ''person'') ''is_dead'')
          (SReturn (ELit (LInt 0)))
          (SIf (ECallMethod (EVar ''person'') ''is_divorced'')
             (SReturn (ELit (LInt 100)))
             (SIf (ECallMethod (EVar ''person'') ''is_retired'')
                (SReturn (ELit (LInt 100)))
                (SIf (ECallMethod (EVar ''person'') ''is_not_working'')
                   (SReturn (ELit (LInt 200)))
                   SPass)))\<rparr>"

definition good__loan_repayment_due_src :: fundef where
  "good__loan_repayment_due_src =
     \<lparr>params = [''person''],
      body =
        SSeq (SIf (ECallMethod (EVar ''person'') ''is_dead'') (SReturn (ELit (LInt 0))) SPass)
          (SSeq
             (SIf (ECallMethod (EVar ''person'') ''is_divorced'')
                (SReturn (ELit (LInt 100))) SPass)
             (SSeq
                (SIf (ECallMethod (EVar ''person'') ''is_retired'')
                   (SReturn (ELit (LInt 100))) SPass)
                (SIf (ECallMethod (EVar ''person'') ''is_not_working'')
                   (SReturn (ELit (LInt 200))) SPass)))\<rparr>"

definition bad__get_bill_src :: fundef where
  "bad__get_bill_src =
     \<lparr>params = [''customer''],
      body =
        SSeq (SIf (EIsNone (EVar ''customer'')) (SReturn (ELit (LInt 0))) SPass)
          (SReturn (EAttr (EVar ''customer'') ''bill''))\<rparr>"

definition good__get_bill_src :: fundef where
  "good__get_bill_src =
     \<lparr>params = [''customer''],
      body = SReturn (EAttr (EVar ''customer'') ''bill'')\<rparr>"

text \<open>
  The functions the notebook defines, a configuration that holds them, and the depth of
  the calls each one makes (only \<^verbatim>\<open>good__get_loan_limit\<close> calls another function).
\<close>

definition notebook :: "(string \<times> fundef) list" where
  "notebook =
     [(''check_if_date_valid'', check_if_date_valid_src),
      (''bad__get_loan_limit'', bad__get_loan_limit_src),
      (''is_eligible_for_loan'', is_eligible_for_loan_src),
      (''good__get_loan_limit'', good__get_loan_limit_src),
      (''is_discounted'', is_discounted_src),
      (''get_price'', get_price_src),
      (''bad__loan_repayment_due'', bad__loan_repayment_due_src),
      (''good__loan_repayment_due'', good__loan_repayment_due_src),
      (''bad__get_bill'', bad__get_bill_src),
      (''good__get_bill'', good__get_bill_src)]"

definition notebook_cfg :: "(nat \<Rightarrow> int) \<Rightarrow> nat \<Rightarrow> config" where
  "notebook_cfg d m = \<lparr>funs = notebook, draw = d, mem_limit = m\<rparr>"

definition call_rank :: "string \<Rightarrow> nat" where
  "call_rank f = (if f = ''good__get_loan_limit'' then 1 else 0)"

text \<open>
  Two functions that are not in the notebook, one with a loop and one that calls itself:
  neither returns.
\<close>

definition spin_src :: fundef where
  "spin_src = \<lparr>params = [], body = SWhile (ELit (LBool True)) SPass\<rparr>"

definition again_src :: fundef where
  "again_src = \<lparr>params = [], body = SReturn (ECall ''again'' [])\<rparr>"

section \<open>Properties\<close>

subsection \<open>The rounding of the float model\<close>

text \<open>
  \<open>round_double\<close> yields a number with a significand of 53 bits (\<open>2\<^sup>5\<^sup>2 \<le> m \<le> 2\<^sup>5\<^sup>3\<close>, the
  upper bound being the next power of two) that lies within half a unit in the last place
  of its argument, and a tie goes to the even significand: it is rounding to nearest, ties
  to even, at the precision of binary64.
\<close>

lemma bit_length_pos: "0 < n \<Longrightarrow> 0 < bit_length n"
  by (subst bit_length.simps) simp

lemma bit_length_bounds:
  "0 < n \<Longrightarrow> 2 ^ (bit_length n - 1) \<le> n \<and> n < 2 ^ bit_length n"
proof (induction n rule: bit_length.induct)
  case (1 n)
  show ?case
  proof (cases "n div 2 = 0")
    case True
    with "1.prems" have n1: "n = 1" by (simp add: div_eq_0_iff) 
    have "bit_length 1 = 1"
      by (subst bit_length.simps, simp, subst bit_length.simps, simp)
    with n1 show ?thesis by simp
  next
    case False
    then have pos: "0 < n div 2" by simp
    from "1.prems" have nz: "n \<noteq> 0" by simp
    from "1.IH" [OF nz pos]
    have lo: "2 ^ (bit_length (n div 2) - 1) \<le> n div 2"
      and hi: "n div 2 < 2 ^ bit_length (n div 2)" by simp_all
    have bl: "bit_length n = Suc (bit_length (n div 2))"
      using nz by (subst bit_length.simps) simp
    from bit_length_pos [OF pos] obtain k where k: "bit_length (n div 2) = Suc k"
      by (cases "bit_length (n div 2)") simp_all
    from lo k have "2 * 2 ^ k \<le> 2 * (n div 2)" by simp
    then have a: "2 ^ (bit_length n - 1) \<le> n" using bl k by simp
    from hi have "Suc (n div 2) \<le> 2 ^ bit_length (n div 2)" by simp
    then have "2 * Suc (n div 2) \<le> 2 * 2 ^ bit_length (n div 2)" by simp
    moreover have "n < 2 * Suc (n div 2)" by simp
    ultimately have b: "n < 2 ^ bit_length n" using bl by simp
    from a b show ?thesis by simp
  qed
qed

lemma pow2_pos: "0 < pow2 e"
  by (simp add: pow2_def)

lemma pow2_powi: "pow2 e = 2 powi e"
  by (simp add: pow2_def power_int_def field_simps)

lemma pow2_of_nat: "pow2 (int k) = 2 ^ k"
  by (simp add: pow2_powi)

lemma pow2_neg_nat: "pow2 (- int k) = 1 / 2 ^ k"
  by (simp add: pow2_powi power_int_minus field_simps)

lemma pow2_add: "pow2 (a + b) = pow2 a * pow2 b"
  by (simp add: pow2_powi power_int_add)

lemma real_pow2_le_nat: "2 ^ k \<le> n \<Longrightarrow> (2::real) ^ k \<le> real n"
  by (metis of_nat_le_iff of_nat_numeral of_nat_power)

lemma ilog2_bounds:
  assumes "0 < q"
  shows "pow2 (ilog2 q) \<le> q \<and> q < pow2 (ilog2 q + 1)"
proof (cases "1 \<le> q")
  case True
  define n where "n = nat \<lfloor>q\<rfloor>"
  from True have npos: "0 < n" by (simp add: n_def)
  from bit_length_bounds [OF npos]
  have lo: "2 ^ (bit_length n - 1) \<le> n" and hi: "n < 2 ^ bit_length n" by simp_all
  from bit_length_pos [OF npos] obtain k where k: "bit_length n = Suc k"
    by (cases "bit_length n") simp_all
  have il: "ilog2 q = int k" using True k by (simp add: ilog2_def n_def)
  have nq: "real n \<le> q" "q < real n + 1"
    using True by (simp_all add: n_def)
  from lo k have "(2::real) ^ k \<le> real n"
    by (intro real_pow2_le_nat) simp
  with nq have "2 ^ k \<le> q" by linarith
  then have a: "pow2 (ilog2 q) \<le> q" by (simp add: il pow2_of_nat)
  from hi have "2 ^ Suc k \<ge> Suc n" unfolding k by simp
  then have "real (Suc n) \<le> 2 ^ Suc k"
    by (metis of_nat_le_iff of_nat_numeral of_nat_power)
  then have "real n + 1 \<le> 2 ^ Suc k" by simp
  with nq have "q < 2 ^ Suc k" by linarith
  moreover have "pow2 (ilog2 q + 1) = 2 ^ Suc k"
    using pow2_of_nat [of "Suc k"] by (simp add: il add.commute)
  ultimately have b: "q < pow2 (ilog2 q + 1)" by simp
  from a b show ?thesis by simp
next
  case False
  define r where "r = 1 / q"
  define c where "c = \<lceil>r\<rceil>"
  define n where "n = nat (c - 1)"
  from False assms have r1: "1 < r" by (simp add: r_def)
  then have c2: "2 \<le> c" unfolding c_def by linarith
  then have npos: "0 < n" by (simp add: n_def)
  have cn: "real_of_int c = real n + 1" using c2 by (simp add: n_def)
  have rc: "r \<le> of_int c" "of_int c - 1 < r" unfolding c_def by linarith+
  from bit_length_bounds [OF npos]
  have lo: "2 ^ (bit_length n - 1) \<le> n" and hi: "n < 2 ^ bit_length n" by simp_all
  from bit_length_pos [OF npos] obtain k where k: "bit_length n = Suc k"
    by (cases "bit_length n") simp_all
  have il: "ilog2 q = - int (Suc k)"
    using False k by (simp add: ilog2_def n_def c_def r_def)
  from hi have "2 ^ Suc k \<ge> Suc n" unfolding k by simp
  then have "real (Suc n) \<le> 2 ^ Suc k"
    by (metis of_nat_le_iff of_nat_numeral of_nat_power)
  then have "real n + 1 \<le> 2 ^ Suc k" by simp
  with rc cn have rle: "r \<le> 2 ^ Suc k" by linarith
  from lo k have "(2::real) ^ k \<le> real n"
    by (intro real_pow2_le_nat) simp
  with rc cn have rgt: "2 ^ k < r" by linarith
  have q: "q = 1 / r" using assms by (simp add: r_def)
  have rpos: "0 < r" using r1 by simp
  have "1 / 2 ^ Suc k \<le> 1 / r"
    using rle rpos by (intro divide_left_mono) simp_all
  then have a: "1 / 2 ^ Suc k \<le> q" by (simp only: q)
  have "1 / r < 1 / 2 ^ k"
    using rgt rpos by (intro divide_strict_left_mono) simp_all
  then have b: "q < 1 / 2 ^ k" by (simp only: q)
  have p1: "pow2 (ilog2 q) = 1 / 2 ^ Suc k" unfolding il by (rule pow2_neg_nat)
  have "ilog2 q + 1 = - int k" using il by simp
  then have p2: "pow2 (ilog2 q + 1) = 1 / 2 ^ k" by (simp only: pow2_neg_nat)
  from a b p1 p2 show ?thesis by simp
qed

lemma round_half_even_near:
  "\<bar>of_int (round_half_even r) - r\<bar> \<le> 1 / 2"
  unfolding round_half_even_def Let_def
  by (auto simp: abs_le_iff; linarith)

lemma round_half_even_mono_int:
  "of_int k \<le> r \<Longrightarrow> k \<le> round_half_even r"
  "r \<le> of_int k \<Longrightarrow> round_half_even r \<le> k"
  unfolding round_half_even_def Let_def
  by (auto simp: le_floor_iff; linarith)+

lemma pow2_add_nat: "pow2 (e + int n) = pow2 e * 2 ^ n"
  by (simp only: pow2_add pow2_of_nat)

lemma round_half_even_tie:
  "r - of_int \<lfloor>r\<rfloor> = 1 / 2 \<Longrightarrow> even (round_half_even r)"
  unfolding round_half_even_def Let_def by simp

lemma round_double_significand:
  fixes q :: real
  assumes "q \<noteq> 0"
  shows "\<exists>m. round_double q = sgn q * of_int m * pow2 (ilog2 \<bar>q\<bar> - 52)
           \<and> 2 ^ 52 \<le> m \<and> m \<le> 2 ^ 53
           \<and> \<bar>round_double q - q\<bar> \<le> pow2 (ilog2 \<bar>q\<bar> - 52) / 2"
proof -
  define e where "e = ilog2 \<bar>q\<bar> - 52"
  define m where "m = round_half_even (\<bar>q\<bar> / pow2 e)"
  define a where "a = \<bar>q\<bar>"
  define x where "x = a / pow2 e"
  from assms have apos: "0 < a" by (simp add: a_def)
  have epos: "0 < pow2 e" by (rule pow2_pos)
  have rd: "round_double q = sgn q * of_int m * pow2 e"
    using assms by (simp add: round_double_def Let_def e_def m_def)
  have "ilog2 a = e + int 52" by (simp add: e_def a_def)
  then have k: "pow2 (ilog2 a) = pow2 e * 2 ^ 52"
    by (simp only: pow2_add_nat)
  have "ilog2 a + 1 = e + int 53" by (simp add: e_def a_def)
  then have k1: "pow2 (ilog2 a + 1) = pow2 e * 2 ^ 53"
    by (simp only: pow2_add_nat)
  from ilog2_bounds [OF apos] k k1
  have "pow2 e * 2 ^ 52 \<le> a" and "a < pow2 e * 2 ^ 53" by simp_all
  with epos have xlo: "2 ^ 52 \<le> x" and xhi: "x \<le> 2 ^ 53"
    by (simp_all add: x_def field_simps)
  have mx: "m = round_half_even x" by (simp add: m_def x_def a_def)
  from xlo have "real_of_int (2 ^ 52) \<le> x" by simp
  then have mlo: "2 ^ 52 \<le> m" unfolding mx by (rule round_half_even_mono_int)
  from xhi have "x \<le> real_of_int (2 ^ 53)" by simp
  then have mhi: "m \<le> 2 ^ 53" unfolding mx by (rule round_half_even_mono_int)
  have near: "\<bar>of_int m - x\<bar> \<le> 1 / 2" unfolding mx by (rule round_half_even_near)
  have "of_int m * pow2 e - a = (of_int m - x) * pow2 e"
    using epos by (simp add: x_def field_simps)
  then have "\<bar>of_int m * pow2 e - a\<bar> = \<bar>of_int m - x\<bar> * pow2 e"
    using epos by (simp add: abs_mult)
  also have "\<dots> \<le> 1 / 2 * pow2 e"
    using near epos by (intro mult_right_mono) simp_all
  finally have err: "\<bar>of_int m * pow2 e - a\<bar> \<le> pow2 e / 2" by simp
  have "q = sgn q * a" by (simp add: a_def sgn_mult_abs)
  then have "round_double q - q = sgn q * (of_int m * pow2 e - a)"
    unfolding rd by (metis mult.assoc right_diff_distrib)
  then have "\<bar>round_double q - q\<bar> = \<bar>of_int m * pow2 e - a\<bar>"
    using assms by (simp add: abs_mult abs_sgn_eq)
  with err have "\<bar>round_double q - q\<bar> \<le> pow2 e / 2" by simp
  with rd mlo mhi show ?thesis unfolding e_def by blast
qed

subsection \<open>Values of the float model at the numbers of cell 3\<close>

lemma float_literal_0_8:
  "float_literal 0.8 = 3602879701896397 / 4503599627370496"
  by code_simp

lemma float_literal_1_0: "float_literal 1.0 = 1"
  by code_simp

lemma float_literal_8_0: "float_literal 8.0 = 8"
  by code_simp

lemma float_literal_10_0: "float_literal 10.0 = 10"
  by code_simp

lemma float_of_int_10: "float_of_int 10 = 10"
  by code_simp

lemma get_price_discounted: "get_price 10 (float_literal 0.8) = float_literal 8.0"
  by code_simp

lemma get_price_full: "get_price 10 (float_literal 1.0) = float_literal 10.0"
  by code_simp

lemma pow2_lo: "pow2 (- 1022) \<le> 1 / 2"
  by (simp add: pow2_def divide_le_eq)

lemma pow2_hi: "16 < pow2 1024"
proof -
  have "(2::real) ^ 4 < 2 ^ 1024"
    by (rule power_strict_increasing) simp_all
  then show ?thesis by (simp add: pow2_def)
qed

lemma in_double_rangeI: "1 / 2 \<le> x \<Longrightarrow> x \<le> 16 \<Longrightarrow> in_double_range x"
  using pow2_lo pow2_hi by (simp add: in_double_range_def)

lemma operands_of_cell_in_range:
  "in_double_range (float_literal 0.8)" "in_double_range (float_literal 1.0)"
  "in_double_range (float_of_int 10)"
  unfolding float_literal_0_8 float_literal_1_0 float_of_int_10
  by (rule in_double_rangeI; simp)+

lemma prices_of_cell_in_range:
  "in_double_range (get_price 10 (float_literal 0.8))"
  "in_double_range (get_price 10 (float_literal 1.0))"
  unfolding get_price_discounted get_price_full float_literal_8_0 float_literal_10_0
  by (rule in_double_rangeI; simp)+

text \<open>The literal \<^verbatim>\<open>0.8\<close> is not a binary fraction: its float lies within half a unit in
  the last place (\<open>2\<^sup>-\<^sup>5\<^sup>4\<close>) of it, and above it.\<close>

lemma float_literal_0_8_error:
  "0.8 < float_literal 0.8" "float_literal 0.8 - 0.8 \<le> pow2 (- 54)"
  unfolding float_literal_0_8 by (simp_all add: pow2_def)

subsection \<open>Shared facts about the example functions\<close>

lemma is_discounted_iff: "is_discounted val \<longleftrightarrow> val > 5"
  by (simp add: is_discounted_def)

lemma consolidate_bad_flow_eq:
  "consolidate_bad_flow val =
     (if is_discounted val
      then \<lparr>mult = float_literal 0.8, price = float_literal 8.0\<rparr>
      else \<lparr>mult = float_literal 1.0, price = float_literal 10.0\<rparr>)"
  unfolding consolidate_bad_flow_def Let_def get_price_discounted get_price_full
  by (rule refl)

lemma consolidate_good_flow_eq:
  "consolidate_good_flow val =
     (if is_discounted val
      then \<lparr>mult = float_literal 0.8, price = float_literal 8.0\<rparr>
      else \<lparr>mult = float_literal 1.0, price = float_literal 10.0\<rparr>)"
proof (cases "is_discounted val")
  case True
  show ?thesis
    unfolding consolidate_good_flow_def Let_def if_P [OF True] get_price_discounted
    by (rule refl)
next
  case False
  show ?thesis
    unfolding consolidate_good_flow_def Let_def if_not_P [OF False] get_price_full
    by (rule refl)
qed

lemma mult_of_flow:
  "mult (if b then \<lparr>mult = float_literal 0.8, price = float_literal 8.0\<rparr>
         else \<lparr>mult = float_literal 1.0, price = float_literal 10.0\<rparr>)
   = float_literal (if b then 0.8 else 1.0)"
  by (cases b; simp only: if_True if_False pricing.simps)

lemma price_of_flow:
  "price (if b then \<lparr>mult = float_literal 0.8, price = float_literal 8.0\<rparr>
          else \<lparr>mult = float_literal 1.0, price = float_literal 10.0\<rparr>)
   = (if b then 8 else 10)"
  by (cases b; simp only: if_True if_False pricing.simps float_literal_8_0 float_literal_10_0)

lemma price_from_mult:
  "price (if b then \<lparr>mult = float_literal 0.8, price = float_literal 8.0\<rparr>
          else \<lparr>mult = float_literal 1.0, price = float_literal 10.0\<rparr>)
   = get_price 10
       (mult (if b then \<lparr>mult = float_literal 0.8, price = float_literal 8.0\<rparr>
              else \<lparr>mult = float_literal 1.0, price = float_literal 10.0\<rparr>))"
  by (cases b; simp only: if_True if_False pricing.simps get_price_discounted get_price_full)

lemma get_bill_on_object:
  "bad__get_bill (Some obj) = Inr (bill obj)" "good__get_bill (Some obj) = Inr (bill obj)"
  by (simp_all add: bad__get_bill_def good__get_bill_def)

lemma get_bill_on_None:
  "bad__get_bill None = Inr 0" "good__get_bill None = Inl AttributeError"
  by (simp_all add: bad__get_bill_def good__get_bill_def)

subsection \<open>Functions without loops and with calls of bounded depth return\<close>

lemma called_args_mem: "e \<in> set es \<Longrightarrow> set (called_expr e) \<subseteq> set (called_args es)"
  by (induction es) auto

lemma eval_args_total:
  "(\<And>e env k. e \<in> set es \<Longrightarrow> eval_expr cf c e env k \<noteq> None)
     \<Longrightarrow> eval_args cf c es env k \<noteq> None"
proof (induction es arbitrary: k)
  case Nil
  show ?case by simp
next
  case (Cons e es)
  have "eval_expr cf c e env k \<noteq> None" by (rule Cons.prems) simp
  moreover have "eval_args cf c es env j \<noteq> None" for j
    by (rule Cons.IH, rule Cons.prems) simp
  ultimately show ?case by (simp del: not_None_eq split: option.splits sum.splits prod.splits)
qed

lemma eval_expr_total:
  "(\<And>f vs k. f \<in> set (called_expr e) \<Longrightarrow> cf f vs k \<noteq> None)
     \<Longrightarrow> eval_expr cf c e env k \<noteq> None"
proof (induction e arbitrary: env k)
  case (ECall f es)
  have "eval_args cf c es env k \<noteq> None"
  proof (rule eval_args_total)
    fix e env' j
    assume e: "e \<in> set es"
    show "eval_expr cf c e env' j \<noteq> None"
    proof (rule ECall.IH [OF e])
      fix g vs i
      assume "g \<in> set (called_expr e)"
      with called_args_mem [OF e] have "g \<in> set (called_expr (ECall f es))" by auto
      then show "cf g vs i \<noteq> None" by (rule ECall.prems)
    qed
  qed
  moreover have "cf f vs j \<noteq> None" for vs j by (rule ECall.prems) simp
  ultimately show ?case by (simp del: not_None_eq split: option.splits sum.splits prod.splits)
next
  case (EAnd e1 e2)
  have "eval_expr cf c e1 env k \<noteq> None" by (rule EAnd.IH, rule EAnd.prems) simp
  moreover have "eval_expr cf c e2 env j \<noteq> None" for j
    by (rule EAnd.IH, rule EAnd.prems) simp
  ultimately show ?case by (simp del: not_None_eq split: option.splits sum.splits prod.splits)
next
  case (EMul e1 e2)
  have "eval_expr cf c e1 env k \<noteq> None" by (rule EMul.IH, rule EMul.prems) simp
  moreover have "eval_expr cf c e2 env j \<noteq> None" for j
    by (rule EMul.IH, rule EMul.prems) simp
  ultimately show ?case by (simp del: not_None_eq split: option.splits sum.splits prod.splits)
qed (auto split: option.splits sum.splits prod.splits)

lemma exec_stmt_total:
  "loop_free s \<Longrightarrow> (\<And>f vs k. f \<in> set (called_stmt s) \<Longrightarrow> cf f vs k \<noteq> None)
     \<Longrightarrow> exec_stmt cf n c s env k \<noteq> None"
proof (induction s arbitrary: env k)
  case (SReturn e)
  then have "eval_expr cf c e env k \<noteq> None" by (intro eval_expr_total) simp
  then show ?case by (simp del: not_None_eq split: option.splits sum.splits prod.splits)
next
  case (SIf e s1 s2)
  then have "eval_expr cf c e env k \<noteq> None" by (intro eval_expr_total) simp
  with SIf show ?case by (simp del: not_None_eq split: option.splits sum.splits prod.splits)
next
  case (SSeq s1 s2)
  then have "exec_stmt cf n c s1 env k \<noteq> None" by simp
  with SSeq show ?case by (simp del: not_None_eq split: option.splits flow.splits prod.splits)
next
  case (SAssign x e)
  then have "eval_expr cf c e env k \<noteq> None" by (intro eval_expr_total) simp
  then show ?case by (simp del: not_None_eq split: option.splits sum.splits prod.splits)
next
  case SPass
  show ?case by simp
next
  case (SWhile e s)
  then show ?case by simp
next
  case (SAssert e)
  then have "eval_expr cf c e env k \<noteq> None" by (intro eval_expr_total) simp
  then show ?case by (simp del: not_None_eq split: option.splits sum.splits prod.splits)
next
  case (STry s h)
  then have "exec_stmt cf n c s env k \<noteq> None" by simp
  with STry show ?case by (simp del: not_None_eq split: option.splits flow.splits prod.splits)
qed

lemma call_fun_total:
  assumes lf: "\<And>f fd. map_of (funs c) f = Some fd \<Longrightarrow> loop_free (body fd)"
    and rk: "\<And>f fd g. map_of (funs c) f = Some fd \<Longrightarrow> g \<in> set (called_stmt (body fd))
               \<Longrightarrow> rank g < rank f"
  shows "rank f < n \<Longrightarrow> call_fun n c f vs k \<noteq> None"
proof (induction n arbitrary: f vs k)
  case 0
  then show ?case by simp
next
  case (Suc n)
  show ?case
  proof (cases "map_of (funs c) f")
    case None
    then show ?thesis by simp
  next
    case (Some fd)
    have "exec_stmt (call_fun n c) n c (body fd) (zip (params fd) vs) k \<noteq> None"
    proof (rule exec_stmt_total)
      show "loop_free (body fd)" using Some by (rule lf)
    next
      fix g ws j
      assume "g \<in> set (called_stmt (body fd))"
      then have "rank g < rank f" using Some rk by blast
      with Suc.prems have "rank g < n" by simp
      then show "call_fun n c g ws j \<noteq> None" by (rule Suc.IH)
    qed
    with Some show ?thesis by (simp del: not_None_eq split: option.splits flow.splits prod.splits)
  qed
qed

lemmas src_defs =
  check_if_date_valid_src_def bad__get_loan_limit_src_def is_eligible_for_loan_src_def
  good__get_loan_limit_src_def is_discounted_src_def get_price_src_def
  bad__loan_repayment_due_src_def good__loan_repayment_due_src_def bad__get_bill_src_def
  good__get_bill_src_def

lemma notebook_loop_free:
  "map_of (funs (notebook_cfg d m)) f = Some fd \<Longrightarrow> loop_free (body fd)"
  by (auto simp: notebook_cfg_def notebook_def src_defs split: if_splits)

lemma notebook_ranked:
  "map_of (funs (notebook_cfg d m)) f = Some fd \<Longrightarrow> g \<in> set (called_stmt (body fd))
     \<Longrightarrow> call_rank g < call_rank f"
  by (auto simp: notebook_cfg_def notebook_def src_defs call_rank_def split: if_splits)

lemma notebook_terminates: "call_fun (2 + n) (notebook_cfg d m) f vs k \<noteq> None"
proof (rule call_fun_total [where rank = call_rank])
  show "call_rank f < 2 + n" by (simp add: call_rank_def)
qed (erule notebook_loop_free, erule notebook_ranked)

lemma spin_diverges_stmt:
  "exec_stmt cf n c (SWhile (ELit (LBool True)) SPass) env k = None"
  by (induction n arbitrary: env k) (simp_all add: lit_val_def truthy_def)

lemma spin_diverges:
  "call_fun n \<lparr>funs = [(''spin'', spin_src)], draw = d, mem_limit = m\<rparr> ''spin'' [] k = None"
  by (cases n) (simp_all add: spin_src_def spin_diverges_stmt)

lemma again_diverges:
  "call_fun n \<lparr>funs = [(''again'', again_src)], draw = d, mem_limit = m\<rparr> ''again'' [] k = None"
  by (induction n arbitrary: k) (simp_all add: again_src_def)

subsection \<open>The interpreter on arguments of the shapes of the examples\<close>

lemmas run_simps =
  numeral_2_eq_2 notebook_cfg_def notebook_def src_defs py_getattr_def py_call0_def
  py_eq_lit_def num_eq_def as_int_def py_ord_int_def ord_holds_def truthy_def lit_val_def

lemma run_check_if_date_valid:
  assumes "map_of dt ''month'' = Some (PyInt mo)" and "map_of dt ''year'' = Some (PyInt yr)"
  shows "call_fun 2 (notebook_cfg d m) ''check_if_date_valid'' [PyObj dt] k =
     Some (Inr (PyBool (check_if_date_valid \<lparr>year = yr, month = mo, day = dy\<rparr>)), k)"
  using assms by (simp add: run_simps check_if_date_valid_def)

lemma run_bad__get_loan_limit:
  assumes "map_of ps ''age'' = Some (PyInt a)" and "map_of ps ''income'' = Some (PyInt i)"
    and "map_of ps ''gender'' = Some (PyStr g)"
  shows "call_fun 2 (notebook_cfg d m) ''bad__get_loan_limit'' [PyObj ps] k =
     Some (Inr (PyInt (bad__get_loan_limit \<lparr>age = a, income = i, gender = g\<rparr>)), k)"
  using assms by (simp add: run_simps bad__get_loan_limit_def)

lemma run_is_eligible_for_loan:
  assumes "map_of ps ''age'' = Some (PyInt a)" and "map_of ps ''income'' = Some (PyInt i)"
    and "map_of ps ''gender'' = Some (PyStr g)"
  shows "call_fun (Suc n) (notebook_cfg d m) ''is_eligible_for_loan'' [PyObj ps] k =
     Some (Inr (PyBool (is_eligible_for_loan \<lparr>age = a, income = i, gender = g\<rparr>)), k)"
  using assms by (simp add: run_simps is_eligible_for_loan_def)

lemma run_good__get_loan_limit:
  assumes "map_of ps ''age'' = Some (PyInt a)" and "map_of ps ''income'' = Some (PyInt i)"
    and "map_of ps ''gender'' = Some (PyStr g)"
  shows "call_fun 2 (notebook_cfg d m) ''good__get_loan_limit'' [PyObj ps] k =
     Some (Inr (PyInt (good__get_loan_limit \<lparr>age = a, income = i, gender = g\<rparr>)), k)"
  using assms by (simp add: run_simps good__get_loan_limit_def is_eligible_for_loan_def)

lemma run_is_discounted:
  "call_fun 2 (notebook_cfg d m) ''is_discounted'' [] k =
     Some (Inr (PyBool (is_discounted (1 + d k mod 10))), Suc k)"
  by (simp add: run_simps is_discounted_def)

lemma run_bad__loan_repayment_due:
  assumes "map_of pm ''is_dead'' = Some (PyMethod (Inr (PyBool b1)))"
    and "map_of pm ''is_divorced'' = Some (PyMethod (Inr (PyBool b2)))"
    and "map_of pm ''is_retired'' = Some (PyMethod (Inr (PyBool b3)))"
    and "map_of pm ''is_not_working'' = Some (PyMethod (Inr (PyBool b4)))"
  shows "call_fun 2 (notebook_cfg d m) ''bad__loan_repayment_due'' [PyObj pm] k =
     Some (Inr (case bad__loan_repayment_due
                       \<lparr>is_dead = b1, is_divorced = b2, is_retired = b3, is_not_working = b4\<rparr>
                of None \<Rightarrow> PyNone | Some r \<Rightarrow> PyInt r), k)"
  using assms by (simp add: run_simps bad__loan_repayment_due_def)

lemma run_good__loan_repayment_due:
  assumes "map_of pm ''is_dead'' = Some (PyMethod (Inr (PyBool b1)))"
    and "map_of pm ''is_divorced'' = Some (PyMethod (Inr (PyBool b2)))"
    and "map_of pm ''is_retired'' = Some (PyMethod (Inr (PyBool b3)))"
    and "map_of pm ''is_not_working'' = Some (PyMethod (Inr (PyBool b4)))"
  shows "call_fun 2 (notebook_cfg d m) ''good__loan_repayment_due'' [PyObj pm] k =
     Some (Inr (case good__loan_repayment_due
                       \<lparr>is_dead = b1, is_divorced = b2, is_retired = b3, is_not_working = b4\<rparr>
                of None \<Rightarrow> PyNone | Some r \<Rightarrow> PyInt r), k)"
  using assms by (simp add: run_simps good__loan_repayment_due_def)

lemma run_get_bill:
  assumes "map_of cu ''bill'' = Some v"
  shows "call_fun 2 (notebook_cfg d m) ''bad__get_bill'' [PyObj cu] k = Some (Inr v, k)"
    and "call_fun 2 (notebook_cfg d m) ''good__get_bill'' [PyObj cu] k = Some (Inr v, k)"
  using assms by (simp_all add: run_simps)

lemma run_get_bill_None:
  "call_fun 2 (notebook_cfg d m) ''bad__get_bill'' [PyNone] k = Some (Inr (PyInt 0), k)"
  "call_fun 2 (notebook_cfg d m) ''good__get_bill'' [PyNone] k = Some (Inl AttributeError, k)"
  by (simp_all add: run_simps)

lemma run_get_bill_no_attribute:
  assumes "map_of cu ''bill'' = None"
  shows "call_fun 2 (notebook_cfg d m) ''bad__get_bill'' [PyObj cu] k =
           Some (Inl AttributeError, k)"
    and "call_fun 2 (notebook_cfg d m) ''good__get_bill'' [PyObj cu] k =
           Some (Inl AttributeError, k)"
  using assms by (simp_all add: run_simps)

lemma run_get_price:
  "call_fun 2 (notebook_cfg d m) ''get_price'' [v, w] k = Some (py_mul m v w, k)"
  by (simp add: run_simps split: sum.splits)

lemma pow2_mono: "a \<le> b \<Longrightarrow> pow2 a \<le> pow2 b"
  by (simp add: pow2_powi power_int_increasing)

lemma ilog2_ge:
  assumes "0 < q" and "pow2 j \<le> q"
  shows "j \<le> ilog2 q"
proof (rule ccontr)
  assume "\<not> j \<le> ilog2 q"
  then have "ilog2 q + 1 \<le> j" by simp
  then have "pow2 (ilog2 q + 1) \<le> pow2 j" by (rule pow2_mono)
  moreover from ilog2_bounds [OF assms(1)] have "q < pow2 (ilog2 q + 1)" by simp
  ultimately show False using assms(2) by simp
qed

lemma round_binary64_normal:
  assumes "- 1022 \<le> ilog2 \<bar>q\<bar>"
  shows "round_binary64 q = round_double q"
proof -
  from assms have "max (ilog2 \<bar>q\<bar> - 52) (- 1074) = ilog2 \<bar>q\<bar> - 52" by simp
  then show ?thesis by (simp only: round_binary64_def round_double_def)
qed

lemma round_double_lower:
  assumes "q \<noteq> 0"
  shows "pow2 (ilog2 \<bar>q\<bar>) \<le> \<bar>round_double q\<bar>"
proof -
  from round_double_significand [OF assms] obtain m where
    rd: "round_double q = sgn q * of_int m * pow2 (ilog2 \<bar>q\<bar> - 52)" and m: "2 ^ 52 \<le> m"
    by blast
  have e: "0 < pow2 (ilog2 \<bar>q\<bar> - 52)" by (rule pow2_pos)
  from m have mr: "(2::real) ^ 52 \<le> of_int m"
    by (metis of_int_le_iff of_int_numeral of_int_power)
  have "pow2 (ilog2 \<bar>q\<bar> - 52 + int 52) = pow2 (ilog2 \<bar>q\<bar> - 52) * 2 ^ 52"
    by (rule pow2_add_nat)
  then have "pow2 (ilog2 \<bar>q\<bar>) = 2 ^ 52 * pow2 (ilog2 \<bar>q\<bar> - 52)" by simp
  also have "\<dots> \<le> of_int m * pow2 (ilog2 \<bar>q\<bar> - 52)"
    using mr e by (intro mult_right_mono) simp_all
  also have "\<dots> = \<bar>round_double q\<bar>"
    using assms m e unfolding rd by (simp add: abs_mult abs_sgn_eq)
  finally show ?thesis .
qed

lemma round_binary64_overflow:
  assumes "pow2 1024 \<le> \<bar>q\<bar>"
  shows "pow2 1024 \<le> \<bar>round_binary64 q\<bar>"
proof -
  have "0 < pow2 1024" by (rule pow2_pos)
  with assms have pos: "0 < \<bar>q\<bar>" by simp
  then have nz: "q \<noteq> 0" by simp
  from ilog2_ge [OF pos assms] have big: "1024 \<le> ilog2 \<bar>q\<bar>" .
  then have "round_binary64 q = round_double q" by (intro round_binary64_normal) simp
  moreover have "pow2 1024 \<le> pow2 (ilog2 \<bar>q\<bar>)" using big by (rule pow2_mono)
  ultimately show ?thesis using round_double_lower [OF nz] by simp
qed

lemma pow2_1024: "pow2 1024 = 2 ^ 1024"
  using pow2_of_nat [of 1024] by simp

lemma int_to_float_overflow:
  assumes "2 ^ 1024 \<le> \<bar>i\<bar>"
  shows "int_to_float i = Inl OverflowError"
proof -
  from assms have "real_of_int (2 ^ 1024) \<le> real_of_int \<bar>i\<bar>" by (simp only: of_int_le_iff)
  then have "pow2 1024 \<le> \<bar>real_of_int i\<bar>" by (simp add: pow2_1024)
  then have "pow2 1024 \<le> \<bar>round_binary64 (real_of_int i)\<bar>" by (rule round_binary64_overflow)
  then show ?thesis by (simp add: int_to_float_def Let_def)
qed

lemma round_binary64_10: "round_binary64 10 = 10"
  by code_simp

lemma round_binary64_8: "round_binary64 (10 * (3602879701896397 / 4503599627370496)) = 8"
  by code_simp

lemma below_pow2_1024: "\<bar>x\<bar> \<le> 16 \<Longrightarrow> \<not> pow2 1024 \<le> \<bar>x\<bar>"
  using pow2_hi by simp

lemma int_to_float_10: "int_to_float 10 = Inr (Finite 10)"
  using below_pow2_1024 [of 10] by (simp add: int_to_float_def Let_def round_binary64_10)

lemma fl_mul_10_finite_0_8:
  "fl_mul (Finite 10) (Finite (float_literal 0.8)) = Finite (get_price 10 (float_literal 0.8))"
proof -
  have "fl_round (10 * (3602879701896397 / 4503599627370496)) = Finite 8"
    unfolding fl_round_def Let_def round_binary64_8 using below_pow2_1024 [of 8] by simp
  moreover have "get_price 10 (float_literal 0.8) = 8"
    by (simp only: get_price_discounted float_literal_8_0)
  ultimately show ?thesis
    by (simp only: float_literal_0_8 fl_mul_def prod.case fl.case)
qed

lemma fl_mul_10_finite_1_0:
  "fl_mul (Finite 10) (Finite (float_literal 1.0)) = Finite (get_price 10 (float_literal 1.0))"
proof -
  have "fl_round (10 * 1) = Finite 10"
    unfolding fl_round_def Let_def using below_pow2_1024 [of 10]
    by (simp add: round_binary64_10)
  moreover have "get_price 10 (float_literal 1.0) = 10"
    by (simp only: get_price_full float_literal_10_0)
  ultimately show ?thesis
    by (simp only: float_literal_1_0 fl_mul_def prod.case fl.case)
qed

lemma run_get_price_10:
  "call_fun 2 (notebook_cfg d m) ''get_price'' [PyInt 10, PyFloat x] k =
     Some (Inr (PyFloat (fl_mul (Finite 10) x)), k)"
  unfolding run_get_price by (simp add: py_mul_def as_int_def int_to_float_10)

lemma run_get_price_overflow:
  assumes "2 ^ 1024 \<le> \<bar>base\<bar>"
  shows "call_fun 2 (notebook_cfg d m) ''get_price'' [PyInt base, PyFloat x] k =
     Some (Inl OverflowError, k)"
  unfolding run_get_price
  by (simp add: py_mul_def as_int_def int_to_float_overflow [OF assms])

lemma run_get_price_huge_int:
  "call_fun 2 (notebook_cfg d m) ''get_price'' [PyInt (10 ^ 400), PyFloat (Finite 1)] k =
     Some (Inl OverflowError, k)"
proof (rule run_get_price_overflow)
  have "(2::int) ^ 1024 \<le> 2 ^ 1200" by (rule power_increasing) simp_all
  also have "\<dots> = (2 ^ 3) ^ 400" by (simp only: power_mult [symmetric]) simp
  also have "\<dots> \<le> 10 ^ 400" by (rule power_mono) simp_all
  finally show "(2::int) ^ 1024 \<le> \<bar>10 ^ 400\<bar>" by simp
qed

lemma fl_mul_overflow:
  "fl_mul (Finite 10) (Finite (pow2 1023)) = PosInf"
proof -
  have "pow2 1024 = 2 * pow2 1023"
    using pow2_add_nat [of 1023 1] by simp
  then have big: "pow2 1024 \<le> \<bar>10 * pow2 1023\<bar>"
    using pow2_pos [of 1023] by (simp add: abs_mult)
  have pos: "0 < 10 * pow2 1023" using pow2_pos [of 1023] by simp
  from round_binary64_overflow [OF big] pos show ?thesis
    by (simp only: fl_mul_def prod.case fl.case fl_round_def Let_def if_True)
qed

lemma run_get_price_infinite:
  "call_fun 2 (notebook_cfg d m) ''get_price'' [PyInt 10, PyFloat (Finite (pow2 1023))] k =
     Some (Inr (PyFloat PosInf), k)"
  by (simp only: run_get_price_10 fl_mul_overflow)

subsection \<open>The claims\<close>

text \<open>
  C1: for every person record with an integer age, an integer income and a string gender,
  \<^verbatim>\<open>bad__get_loan_limit\<close> and \<^verbatim>\<open>good__get_loan_limit\<close> return the same value.
\<close>

theorem loan_limit_bad_eq_good:
  "bad__get_loan_limit p = good__get_loan_limit p"
  by (simp add: bad__get_loan_limit_def good__get_loan_limit_def is_eligible_for_loan_def)

text \<open>
  C2: for every person record, \<^verbatim>\<open>is_eligible_for_loan\<close> returns \<^verbatim>\<open>True\<close> exactly when the
  age is below 70, the income is above 1000 and the gender is not \<^verbatim>\<open>'m'\<close>; and
  \<^verbatim>\<open>good__get_loan_limit\<close> returns 100 when the person is eligible and 0 otherwise.
\<close>

theorem eligibility_characterised:
  "is_eligible_for_loan p = (age p < 70 \<and> income p > 1000 \<and> gender p \<noteq> ''m'')
   \<and> good__get_loan_limit p = (if is_eligible_for_loan p then 100 else 0)"
proof
  show "is_eligible_for_loan p = (age p < 70 \<and> income p > 1000 \<and> gender p \<noteq> ''m'')"
    unfolding is_eligible_for_loan_def by auto
  show "good__get_loan_limit p = (if is_eligible_for_loan p then 100 else 0)"
    by (simp add: good__get_loan_limit_def)
qed

text \<open>
  C3: for every date, \<^verbatim>\<open>check_if_date_valid\<close> returns the boolean of the inline condition
  \<^verbatim>\<open>(date.month == 12) and (date.year >= 2023)\<close>, so the bad flow and the good flow of the
  Decompose Conditional cell print the same lines; for the sample date 2024-12-15 each
  prints \<^verbatim>\<open>date is valid\<close>.
\<close>

theorem decompose_flows_agree:
  "check_if_date_valid d = ((month d = 12) \<and> (year d \<ge> 2023))
   \<and> decompose_bad_flow d = decompose_good_flow d
   \<and> decompose_bad_flow date = [''date is valid'']
   \<and> decompose_good_flow date = [''date is valid'']"
  by (simp add: check_if_date_valid_def decompose_bad_flow_def decompose_good_flow_def date_def)

text \<open>
  C4: for every person object whose four methods return booleans,
  \<^verbatim>\<open>bad__loan_repayment_due\<close> and \<^verbatim>\<open>good__loan_repayment_due\<close> return the same value, the
  case where all four calls return \<^verbatim>\<open>False\<close> included.
\<close>

theorem loan_repayment_bad_eq_good:
  "bad__loan_repayment_due p = good__loan_repayment_due p"
  by (simp add: bad__loan_repayment_due_def good__loan_repayment_due_def)

text \<open>
  C5: in the Consolidate Duplicate Conditional Fragments cell, for every value \<open>val\<close> that
  \<^verbatim>\<open>is_discounted\<close> draws (so for both of its outcomes), the bad flow and the good flow
  assign the same \<^verbatim>\<open>mult\<close> and the same \<^verbatim>\<open>price\<close>: the price is the float \<^verbatim>\<open>8.0\<close> when
  \<^verbatim>\<open>is_discounted\<close> returns \<^verbatim>\<open>True\<close> (the draw is above 5) and \<^verbatim>\<open>10.0\<close> when it returns
  \<^verbatim>\<open>False\<close>.
\<close>

theorem consolidate_flows_agree:
  "consolidate_bad_flow val = consolidate_good_flow val
   \<and> mult (consolidate_bad_flow val) = float_literal (if is_discounted val then 0.8 else 1.0)
   \<and> price (consolidate_bad_flow val) = get_price 10 (mult (consolidate_bad_flow val))
   \<and> price (consolidate_good_flow val) = get_price 10 (mult (consolidate_good_flow val))
   \<and> price (consolidate_good_flow val) = (if is_discounted val then 8 else 10)
   \<and> is_discounted val = (val > 5)"
  unfolding consolidate_bad_flow_eq consolidate_good_flow_eq
  by (intro conjI refl mult_of_flow price_of_flow price_from_mult is_discounted_iff)

text \<open>
  C6: the \<^verbatim>\<open>NullCustomer\<close> object carries the default that the null check encoded:
  \<^verbatim>\<open>good__get_bill\<close> of a \<^verbatim>\<open>NullCustomer\<close> returns 0, which is what \<^verbatim>\<open>bad__get_bill\<close>
  returns for \<^verbatim>\<open>None\<close>; and for every customer object \<open>c\<close> both functions return
  \<^verbatim>\<open>c.bill\<close>, which is 123 for a fresh \<^verbatim>\<open>Customer\<close>.
\<close>

theorem null_customer_default:
  "good__get_bill (Some NullCustomer) = Inr 0
   \<and> good__get_bill (Some NullCustomer) = bad__get_bill None
   \<and> good__get_bill (Some c) = bad__get_bill (Some c)
   \<and> bad__get_bill (Some c) = Inr (bill c)
   \<and> bill Customer = 123
   \<and> bad__get_bill (Some customer2) = Inr 123
   \<and> good__get_bill (Some customer1) = Inr 123"
  by (simp add: get_bill_on_object get_bill_on_None NullCustomer_def Customer_def
      customer1_def customer2_def)

text \<open>
  C7: every function of the examples terminates on every input. The notebook defines the
  ten functions named; no body has a loop, and the only call between them is that of
  \<^verbatim>\<open>is_eligible_for_loan\<close> by \<^verbatim>\<open>good__get_loan_limit\<close>, so none is recursive. Run by the
  interpreter with a bound of 2 or more, every call returns a value or raises an error, for
  every list of argument values, every stream of random draws and every memory bound. (The
  same interpreter gives \<open>None\<close> at every bound for a body that loops and for one that calls
  itself: \<open>spin_diverges\<close>, \<open>again_diverges\<close>.)
\<close>

theorem notebook_functions_terminate:
  "map fst notebook =
     [''check_if_date_valid'', ''bad__get_loan_limit'', ''is_eligible_for_loan'',
      ''good__get_loan_limit'', ''is_discounted'', ''get_price'', ''bad__loan_repayment_due'',
      ''good__loan_repayment_due'', ''bad__get_bill'', ''good__get_bill'']
   \<and> list_all (\<lambda>(f, fd). loop_free (body fd)) notebook
   \<and> concat (map (\<lambda>(f, fd). map (Pair f) (called_stmt (body fd))) notebook) =
       [(''good__get_loan_limit'', ''is_eligible_for_loan'')]
   \<and> (\<exists>out j. call_fun (2 + n) (notebook_cfg d m) f vs k = Some (out, j))"
proof (intro conjI)
  show "\<exists>out j. call_fun (2 + n) (notebook_cfg d m) f vs k = Some (out, j)"
    using notebook_terminates [of n d m f vs k] by auto
qed (simp_all add: notebook_def src_defs)

theorem notebook_functions_terminate_witness:
  "\<exists>out j. call_fun 2 (notebook_cfg (\<lambda>n. 7) 0) ''get_price''
      [PyInt (10 ^ 400), PyFloat (Finite 1)] 0 = Some (out, j)"
  using notebook_functions_terminate
    [of 0 "\<lambda>n. 7" 0 "''get_price''" "[PyInt (10 ^ 400), PyFloat (Finite 1)]" 0]
  by simp

text \<open>
  C8: no example function handles errors, and none raises on an input of the kind its
  example shows. For a date with integer \<^verbatim>\<open>month\<close> and \<^verbatim>\<open>year\<close>, a person record with
  integer \<^verbatim>\<open>age\<close> and \<^verbatim>\<open>income\<close> and a string \<^verbatim>\<open>gender\<close>, a person whose four methods return
  booleans, a customer object with a \<^verbatim>\<open>bill\<close>, and \<^verbatim>\<open>10\<close> with any float, each of the ten
  functions returns normally, with the value the definition of the first section gives; and
  no body contains an \<^verbatim>\<open>assert\<close> or a \<^verbatim>\<open>try\<close>/\<^verbatim>\<open>except\<close>. (Outside these shapes the functions do
  raise: \<open>run_get_bill_None\<close>, \<open>run_get_bill_no_attribute\<close>, \<open>run_get_price_overflow\<close>; and
  \<^verbatim>\<open>get_price\<close> returns an infinity, normally, for a product too large:
  \<open>run_get_price_infinite\<close>.)
\<close>

theorem no_error_on_demonstrated_inputs:
  assumes "map_of dt ''month'' = Some (PyInt mo)" and "map_of dt ''year'' = Some (PyInt yr)"
    and "map_of ps ''age'' = Some (PyInt a)" and "map_of ps ''income'' = Some (PyInt i)"
    and "map_of ps ''gender'' = Some (PyStr g)"
    and "map_of pm ''is_dead'' = Some (PyMethod (Inr (PyBool b1)))"
    and "map_of pm ''is_divorced'' = Some (PyMethod (Inr (PyBool b2)))"
    and "map_of pm ''is_retired'' = Some (PyMethod (Inr (PyBool b3)))"
    and "map_of pm ''is_not_working'' = Some (PyMethod (Inr (PyBool b4)))"
    and "map_of cu ''bill'' = Some v"
  shows
    "call_fun 2 (notebook_cfg d m) ''check_if_date_valid'' [PyObj dt] k =
       Some (Inr (PyBool (check_if_date_valid \<lparr>year = yr, month = mo, day = dy\<rparr>)), k)
     \<and> call_fun 2 (notebook_cfg d m) ''bad__get_loan_limit'' [PyObj ps] k =
       Some (Inr (PyInt (bad__get_loan_limit \<lparr>age = a, income = i, gender = g\<rparr>)), k)
     \<and> call_fun 2 (notebook_cfg d m) ''is_eligible_for_loan'' [PyObj ps] k =
       Some (Inr (PyBool (is_eligible_for_loan \<lparr>age = a, income = i, gender = g\<rparr>)), k)
     \<and> call_fun 2 (notebook_cfg d m) ''good__get_loan_limit'' [PyObj ps] k =
       Some (Inr (PyInt (good__get_loan_limit \<lparr>age = a, income = i, gender = g\<rparr>)), k)
     \<and> call_fun 2 (notebook_cfg d m) ''is_discounted'' [] k =
       Some (Inr (PyBool (is_discounted (1 + d k mod 10))), Suc k)
     \<and> call_fun 2 (notebook_cfg d m) ''get_price'' [PyInt 10, PyFloat x] k =
       Some (Inr (PyFloat (fl_mul (Finite 10) x)), k)
     \<and> fl_mul (Finite 10) (Finite (float_literal 0.8)) =
       Finite (get_price 10 (float_literal 0.8))
     \<and> fl_mul (Finite 10) (Finite (float_literal 1.0)) =
       Finite (get_price 10 (float_literal 1.0))
     \<and> call_fun 2 (notebook_cfg d m) ''bad__loan_repayment_due'' [PyObj pm] k =
       Some (Inr (case bad__loan_repayment_due
                         \<lparr>is_dead = b1, is_divorced = b2, is_retired = b3, is_not_working = b4\<rparr>
                  of None \<Rightarrow> PyNone | Some r \<Rightarrow> PyInt r), k)
     \<and> call_fun 2 (notebook_cfg d m) ''good__loan_repayment_due'' [PyObj pm] k =
       Some (Inr (case good__loan_repayment_due
                         \<lparr>is_dead = b1, is_divorced = b2, is_retired = b3, is_not_working = b4\<rparr>
                  of None \<Rightarrow> PyNone | Some r \<Rightarrow> PyInt r), k)
     \<and> call_fun 2 (notebook_cfg d m) ''bad__get_bill'' [PyObj cu] k = Some (Inr v, k)
     \<and> call_fun 2 (notebook_cfg d m) ''good__get_bill'' [PyObj cu] k = Some (Inr v, k)
     \<and> list_all (\<lambda>(f, fd). no_error_handling (body fd)) notebook"
proof (intro conjI)
  show "list_all (\<lambda>(f, fd). no_error_handling (body fd)) notebook"
    by (simp add: notebook_def src_defs)
qed (rule run_check_if_date_valid run_bad__get_loan_limit run_is_eligible_for_loan [where n = 1, unfolded One_nat_def numeral_2_eq_2 [symmetric]]
      run_good__get_loan_limit run_is_discounted run_get_price_10 fl_mul_10_finite_0_8
      fl_mul_10_finite_1_0 run_bad__loan_repayment_due run_good__loan_repayment_due
      run_get_bill assms)+

theorem no_error_on_demonstrated_inputs_witness:
  "map_of [(''year'', PyInt 2024), (''month'', PyInt 12), (''day'', PyInt 15)] ''month''
     = Some (PyInt 12)
   \<and> call_fun 2 (notebook_cfg (\<lambda>n. 7) 0) ''check_if_date_valid''
        [PyObj [(''year'', PyInt 2024), (''month'', PyInt 12), (''day'', PyInt 15)]] 0
       = Some (Inr (PyBool True), 0)
   \<and> call_fun 2 (notebook_cfg (\<lambda>n. 7) 0) ''bad__get_loan_limit''
        [PyObj [(''age'', PyInt 30), (''income'', PyInt 2000), (''gender'', PyStr ''f'')]] 0
       = Some (Inr (PyInt 100), 0)
   \<and> call_fun 2 (notebook_cfg (\<lambda>n. 7) 0) ''is_eligible_for_loan''
        [PyObj [(''age'', PyInt 30), (''income'', PyInt 2000), (''gender'', PyStr ''f'')]] 0
       = Some (Inr (PyBool True), 0)
   \<and> call_fun 2 (notebook_cfg (\<lambda>n. 7) 0) ''good__get_loan_limit''
        [PyObj [(''age'', PyInt 30), (''income'', PyInt 2000), (''gender'', PyStr ''f'')]] 0
       = Some (Inr (PyInt 100), 0)
   \<and> call_fun 2 (notebook_cfg (\<lambda>n. 7) 0) ''is_discounted'' [] 0
       = Some (Inr (PyBool True), 1)
   \<and> call_fun 2 (notebook_cfg (\<lambda>n. 7) 0) ''get_price'' [PyInt 10, PyFloat NaN] 0
       = Some (Inr (PyFloat NaN), 0)
   \<and> call_fun 2 (notebook_cfg (\<lambda>n. 7) 0) ''bad__loan_repayment_due''
        [PyObj [(''is_dead'', PyMethod (Inr (PyBool False))),
                (''is_divorced'', PyMethod (Inr (PyBool False))),
                (''is_retired'', PyMethod (Inr (PyBool False))),
                (''is_not_working'', PyMethod (Inr (PyBool True)))]] 0
       = Some (Inr (PyInt 200), 0)
   \<and> call_fun 2 (notebook_cfg (\<lambda>n. 7) 0) ''good__loan_repayment_due''
        [PyObj [(''is_dead'', PyMethod (Inr (PyBool False))),
                (''is_divorced'', PyMethod (Inr (PyBool False))),
                (''is_retired'', PyMethod (Inr (PyBool False))),
                (''is_not_working'', PyMethod (Inr (PyBool True)))]] 0
       = Some (Inr (PyInt 200), 0)
   \<and> call_fun 2 (notebook_cfg (\<lambda>n. 7) 0) ''bad__get_bill'' [PyObj [(''bill'', PyInt 123)]] 0
       = Some (Inr (PyInt 123), 0)
   \<and> call_fun 2 (notebook_cfg (\<lambda>n. 7) 0) ''good__get_bill'' [PyObj [(''bill'', PyInt 0)]] 0
       = Some (Inr (PyInt 0), 0)"
proof -
  note w = no_error_on_demonstrated_inputs
    [where dt = "[(''year'', PyInt 2024), (''month'', PyInt 12), (''day'', PyInt 15)]"
       and mo = 12 and yr = 2024 and dy = 15
       and ps = "[(''age'', PyInt 30), (''income'', PyInt 2000), (''gender'', PyStr ''f'')]"
       and a = 30 and i = 2000 and g = "''f''"
       and pm = "[(''is_dead'', PyMethod (Inr (PyBool False))),
                  (''is_divorced'', PyMethod (Inr (PyBool False))),
                  (''is_retired'', PyMethod (Inr (PyBool False))),
                  (''is_not_working'', PyMethod (Inr (PyBool True)))]"
       and ?b1.0 = False and ?b2.0 = False and ?b3.0 = False and ?b4.0 = True
       and d = "\<lambda>n. 7" and m = 0 and k = 0 and x = NaN]
  have a: "map_of [(''year'', PyInt 2024), (''month'', PyInt 12), (''day'', PyInt 15)] ''month''
     = Some (PyInt 12)" by simp
  from w [where cu = "[(''bill'', PyInt 123)]" and v = "PyInt 123"]
  have b: "call_fun 2 (notebook_cfg (\<lambda>n. 7) 0) ''check_if_date_valid''
        [PyObj [(''year'', PyInt 2024), (''month'', PyInt 12), (''day'', PyInt 15)]] 0
       = Some (Inr (PyBool True), 0)
   \<and> call_fun 2 (notebook_cfg (\<lambda>n. 7) 0) ''bad__get_loan_limit''
        [PyObj [(''age'', PyInt 30), (''income'', PyInt 2000), (''gender'', PyStr ''f'')]] 0
       = Some (Inr (PyInt 100), 0)
   \<and> call_fun 2 (notebook_cfg (\<lambda>n. 7) 0) ''is_eligible_for_loan''
        [PyObj [(''age'', PyInt 30), (''income'', PyInt 2000), (''gender'', PyStr ''f'')]] 0
       = Some (Inr (PyBool True), 0)
   \<and> call_fun 2 (notebook_cfg (\<lambda>n. 7) 0) ''good__get_loan_limit''
        [PyObj [(''age'', PyInt 30), (''income'', PyInt 2000), (''gender'', PyStr ''f'')]] 0
       = Some (Inr (PyInt 100), 0)
   \<and> call_fun 2 (notebook_cfg (\<lambda>n. 7) 0) ''is_discounted'' [] 0
       = Some (Inr (PyBool True), 1)
   \<and> call_fun 2 (notebook_cfg (\<lambda>n. 7) 0) ''get_price'' [PyInt 10, PyFloat NaN] 0
       = Some (Inr (PyFloat NaN), 0)
   \<and> call_fun 2 (notebook_cfg (\<lambda>n. 7) 0) ''bad__loan_repayment_due''
        [PyObj [(''is_dead'', PyMethod (Inr (PyBool False))),
                (''is_divorced'', PyMethod (Inr (PyBool False))),
                (''is_retired'', PyMethod (Inr (PyBool False))),
                (''is_not_working'', PyMethod (Inr (PyBool True)))]] 0
       = Some (Inr (PyInt 200), 0)
   \<and> call_fun 2 (notebook_cfg (\<lambda>n. 7) 0) ''good__loan_repayment_due''
        [PyObj [(''is_dead'', PyMethod (Inr (PyBool False))),
                (''is_divorced'', PyMethod (Inr (PyBool False))),
                (''is_retired'', PyMethod (Inr (PyBool False))),
                (''is_not_working'', PyMethod (Inr (PyBool True)))]] 0
       = Some (Inr (PyInt 200), 0)
   \<and> call_fun 2 (notebook_cfg (\<lambda>n. 7) 0) ''bad__get_bill'' [PyObj [(''bill'', PyInt 123)]] 0
       = Some (Inr (PyInt 123), 0)"
    by (simp add: check_if_date_valid_def bad__get_loan_limit_def is_eligible_for_loan_def
        good__get_loan_limit_def is_discounted_def bad__loan_repayment_due_def
        good__loan_repayment_due_def fl_mul_def)
  from w [where cu = "[(''bill'', PyInt 0)]" and v = "PyInt 0"]
  have c: "call_fun 2 (notebook_cfg (\<lambda>n. 7) 0) ''good__get_bill'' [PyObj [(''bill'', PyInt 0)]] 0
       = Some (Inr (PyInt 0), 0)"
    by simp
  from a b c show ?thesis by simp
qed

text \<open>
  C9: at \<^verbatim>\<open>None\<close> the before/after pair of the Introduce Null Object cell is not
  equivalent: \<^verbatim>\<open>bad__get_bill(None)\<close> returns 0 and \<^verbatim>\<open>good__get_bill(None)\<close> fails on the
  attribute access. The two agree exactly on the arguments that are customer objects.
\<close>

theorem get_bill_pair_differs_at_None:
  "bad__get_bill None = Inr 0
   \<and> good__get_bill None = Inl AttributeError
   \<and> bad__get_bill None \<noteq> good__get_bill None
   \<and> (bad__get_bill c = good__get_bill c) = (c \<noteq> None)"
  by (cases c) (simp_all add: get_bill_on_object get_bill_on_None)

text \<open>
  C10: for every person for whom \<^verbatim>\<open>is_dead()\<close>, \<^verbatim>\<open>is_divorced()\<close>, \<^verbatim>\<open>is_retired()\<close> and
  \<^verbatim>\<open>is_not_working()\<close> all return \<^verbatim>\<open>False\<close>, both \<^verbatim>\<open>bad__loan_repayment_due\<close> and
  \<^verbatim>\<open>good__loan_repayment_due\<close> return \<^verbatim>\<open>None\<close>, not an amount.
\<close>

theorem loan_repayment_no_default:
  assumes "\<not> is_dead p" and "\<not> is_divorced p" and "\<not> is_retired p" and "\<not> is_not_working p"
  shows "bad__loan_repayment_due p = None \<and> good__loan_repayment_due p = None"
  using assms by (simp add: bad__loan_repayment_due_def good__loan_repayment_due_def)

theorem loan_repayment_no_default_witness:
  "bad__loan_repayment_due
     \<lparr>is_dead = False, is_divorced = False, is_retired = False, is_not_working = False\<rparr> = None
   \<and> good__loan_repayment_due
     \<lparr>is_dead = False, is_divorced = False, is_retired = False, is_not_working = False\<rparr> = None"
  using loan_repayment_no_default
    [of "\<lparr>is_dead = False, is_divorced = False, is_retired = False, is_not_working = False\<rparr>"]
  by simp

end
